theory Spec2Isabelle
  imports Complex_Main
begin

section \<open>Strings\<close>

text \<open>
  Python strings are modelled as \<open>string\<close>, a list of 8-bit characters read as the
  code points U+0000 to U+00FF. \<open>str.upper\<close>, \<open>str.lower\<close>, \<open>str.strip\<close>,
  \<open>str.replace(" ", "_")\<close> and the substring test \<open>p in s\<close> are written out on
  that range; text with other code points is outside the model.
\<close>

definition lowercase_letters :: string where
  "lowercase_letters =
     ''abcdefghijklmnopqrstuvwxyz'' @
     [
      CHR 0xE0, CHR 0xE1, CHR 0xE2, CHR 0xE3, CHR 0xE4, CHR 0xE5, CHR 0xE6, CHR 0xE7,
      CHR 0xE8, CHR 0xE9, CHR 0xEA, CHR 0xEB, CHR 0xEC, CHR 0xED, CHR 0xEE, CHR 0xEF,
      CHR 0xF0, CHR 0xF1, CHR 0xF2, CHR 0xF3, CHR 0xF4, CHR 0xF5, CHR 0xF6, CHR 0xF8,
      CHR 0xF9, CHR 0xFA, CHR 0xFB, CHR 0xFC, CHR 0xFD, CHR 0xFE]"

definition uppercase_letters :: string where
  "uppercase_letters =
     ''ABCDEFGHIJKLMNOPQRSTUVWXYZ'' @
     [
      CHR 0xC0, CHR 0xC1, CHR 0xC2, CHR 0xC3, CHR 0xC4, CHR 0xC5, CHR 0xC6, CHR 0xC7,
      CHR 0xC8, CHR 0xC9, CHR 0xCA, CHR 0xCB, CHR 0xCC, CHR 0xCD, CHR 0xCE, CHR 0xCF,
      CHR 0xD0, CHR 0xD1, CHR 0xD2, CHR 0xD3, CHR 0xD4, CHR 0xD5, CHR 0xD6, CHR 0xD8,
      CHR 0xD9, CHR 0xDA, CHR 0xDB, CHR 0xDC, CHR 0xDD, CHR 0xDE]"

text \<open>
  The letters of the range come in pairs 32 apart: \<open>a\<close> to \<open>z\<close>, and U+00E0 to
  U+00FE without the division sign U+00F7. Three characters have an upper-case form
  that is not one character of the range: U+00DF becomes \<open>SS\<close>, which \<open>upper\<close>
  writes; U+00B5 and U+00FF become characters beyond U+00FF and are left in place, a
  difference no comparison with an ASCII name can see.
\<close>

definition upper_char :: "char \<Rightarrow> char" where
  "upper_char c =
     (case map_of (zip lowercase_letters uppercase_letters) c of Some u \<Rightarrow> u | None \<Rightarrow> c)"

definition lower_char :: "char \<Rightarrow> char" where
  "lower_char c =
     (case map_of (zip uppercase_letters lowercase_letters) c of Some l \<Rightarrow> l | None \<Rightarrow> c)"

definition upper :: "string \<Rightarrow> string" where
  "upper s = concat (map (\<lambda>c. if c = CHR 0xDF then ''SS'' else [upper_char c]) s)"

definition lower :: "string \<Rightarrow> string" where
  "lower s = map lower_char s"

text \<open>The characters of the range for which Python's \<open>str.isspace\<close> holds; the
  class \<open>\s\<close> of regular expressions has the same members.\<close>

definition is_space :: "char \<Rightarrow> bool" where
  "is_space c =
     (c \<in> set [CHR 0x20, CHR 0x09, CHR 0x0A, CHR 0x0B, CHR 0x0C, CHR 0x0D,
                CHR 0x1C, CHR 0x1D, CHR 0x1E, CHR 0x1F, CHR 0x85, CHR 0xA0])"

definition strip :: "string \<Rightarrow> string" where
  "strip s = rev (dropWhile is_space (rev (dropWhile is_space s)))"

definition replace_space_underscore :: "string \<Rightarrow> string" where
  "replace_space_underscore s = map (\<lambda>c. if c = CHR '' '' then CHR ''_'' else c) s"

fun starts_with :: "string \<Rightarrow> string \<Rightarrow> bool" where
  "starts_with [] s = True"
| "starts_with (p # ps) [] = False"
| "starts_with (p # ps) (c # cs) = (p = c \<and> starts_with ps cs)"

text \<open>\<open>contains p s\<close> is Python's \<open>p in s\<close> on strings.\<close>

fun contains :: "string \<Rightarrow> string \<Rightarrow> bool" where
  "contains p [] = (p = [])"
| "contains p (c # cs) = (starts_with p (c # cs) \<or> contains p cs)"


section \<open>The category vocabulary (models.py)\<close>

datatype Category =
    ACHU | AISHU | AMMA | BANK | BODY | BUDGET | CAR | CHRISTMAS | COOK | DRESS
  | EDUCATION | ELECTRICITY | ENTERTAINMENT | FAITH | FAMILY | FOOD | FUEL | GIFT
  | GROCERY | GYM | HOUSE | HOUSEHOLD | INCOME_TAX | INSURANCE | INTERNET
  | INTERNATIONAL_TRIP | INVESTMENT | KITCHEN | MAID | MEDICAL | PHONE | PHILANTHROPY
  | PROCESSED_TRANSACTIONS | PROFESSION | RENT | SALE | SALON | SCOOTER | COURIER
  | PAYMENT | PETROL | SHOPPING | SOFTWARE | SUBSCRIPTION | TAX | TRANSPORTATION
  | TRAVEL | UNCATEGORIZED | VALUE_ADD | WATER | WEDDING | INCOME | SALARY | REFUND
  | CASHBACK | INTEREST | TRANSFER

text \<open>The members in definition order, as iterating the enum yields them.\<close>

definition all_categories :: "Category list" where
  "all_categories =
     [ACHU, AISHU, AMMA, BANK, BODY, BUDGET, CAR, CHRISTMAS, COOK, DRESS,
      EDUCATION, ELECTRICITY, ENTERTAINMENT, FAITH, FAMILY, FOOD, FUEL, GIFT,
      GROCERY, GYM, HOUSE, HOUSEHOLD, INCOME_TAX, INSURANCE, INTERNET,
      INTERNATIONAL_TRIP, INVESTMENT, KITCHEN, MAID, MEDICAL, PHONE, PHILANTHROPY,
      PROCESSED_TRANSACTIONS, PROFESSION, RENT, SALE, SALON, SCOOTER, COURIER,
      PAYMENT, PETROL, SHOPPING, SOFTWARE, SUBSCRIPTION, TAX, TRANSPORTATION,
      TRAVEL, UNCATEGORIZED, VALUE_ADD, WATER, WEDDING, INCOME, SALARY, REFUND,
      CASHBACK, INTEREST, TRANSFER]"

text \<open>\<open>member_name c\<close> is the enum key (\<open>c.name\<close>), \<open>member_value c\<close> the display
  string (\<open>c.value\<close>).\<close>

fun member_name :: "Category \<Rightarrow> string" where
  "member_name ACHU = ''ACHU''"
| "member_name AISHU = ''AISHU''"
| "member_name AMMA = ''AMMA''"
| "member_name BANK = ''BANK''"
| "member_name BODY = ''BODY''"
| "member_name BUDGET = ''BUDGET''"
| "member_name CAR = ''CAR''"
| "member_name CHRISTMAS = ''CHRISTMAS''"
| "member_name COOK = ''COOK''"
| "member_name DRESS = ''DRESS''"
| "member_name EDUCATION = ''EDUCATION''"
| "member_name ELECTRICITY = ''ELECTRICITY''"
| "member_name ENTERTAINMENT = ''ENTERTAINMENT''"
| "member_name FAITH = ''FAITH''"
| "member_name FAMILY = ''FAMILY''"
| "member_name FOOD = ''FOOD''"
| "member_name FUEL = ''FUEL''"
| "member_name GIFT = ''GIFT''"
| "member_name GROCERY = ''GROCERY''"
| "member_name GYM = ''GYM''"
| "member_name HOUSE = ''HOUSE''"
| "member_name HOUSEHOLD = ''HOUSEHOLD''"
| "member_name INCOME_TAX = ''INCOME_TAX''"
| "member_name INSURANCE = ''INSURANCE''"
| "member_name INTERNET = ''INTERNET''"
| "member_name INTERNATIONAL_TRIP = ''INTERNATIONAL_TRIP''"
| "member_name INVESTMENT = ''INVESTMENT''"
| "member_name KITCHEN = ''KITCHEN''"
| "member_name MAID = ''MAID''"
| "member_name MEDICAL = ''MEDICAL''"
| "member_name PHONE = ''PHONE''"
| "member_name PHILANTHROPY = ''PHILANTHROPY''"
| "member_name PROCESSED_TRANSACTIONS = ''PROCESSED_TRANSACTIONS''"
| "member_name PROFESSION = ''PROFESSION''"
| "member_name RENT = ''RENT''"
| "member_name SALE = ''SALE''"
| "member_name SALON = ''SALON''"
| "member_name SCOOTER = ''SCOOTER''"
| "member_name COURIER = ''COURIER''"
| "member_name PAYMENT = ''PAYMENT''"
| "member_name PETROL = ''PETROL''"
| "member_name SHOPPING = ''SHOPPING''"
| "member_name SOFTWARE = ''SOFTWARE''"
| "member_name SUBSCRIPTION = ''SUBSCRIPTION''"
| "member_name TAX = ''TAX''"
| "member_name TRANSPORTATION = ''TRANSPORTATION''"
| "member_name TRAVEL = ''TRAVEL''"
| "member_name UNCATEGORIZED = ''UNCATEGORIZED''"
| "member_name VALUE_ADD = ''VALUE_ADD''"
| "member_name WATER = ''WATER''"
| "member_name WEDDING = ''WEDDING''"
| "member_name INCOME = ''INCOME''"
| "member_name SALARY = ''SALARY''"
| "member_name REFUND = ''REFUND''"
| "member_name CASHBACK = ''CASHBACK''"
| "member_name INTEREST = ''INTEREST''"
| "member_name TRANSFER = ''TRANSFER''"

fun member_value :: "Category \<Rightarrow> string" where
  "member_value ACHU = ''Achu''"
| "member_value AISHU = ''Aishu''"
| "member_value AMMA = ''Amma''"
| "member_value BANK = ''Bank''"
| "member_value BODY = ''Body''"
| "member_value BUDGET = ''Budget''"
| "member_value CAR = ''Car''"
| "member_value CHRISTMAS = ''Christmas''"
| "member_value COOK = ''Cook''"
| "member_value DRESS = ''Dress''"
| "member_value EDUCATION = ''Education''"
| "member_value ELECTRICITY = ''Electricity''"
| "member_value ENTERTAINMENT = ''Entertainment''"
| "member_value FAITH = ''Faith''"
| "member_value FAMILY = ''Family''"
| "member_value FOOD = ''Food''"
| "member_value FUEL = ''Fuel''"
| "member_value GIFT = ''Gift''"
| "member_value GROCERY = ''Grocery''"
| "member_value GYM = ''Gym''"
| "member_value HOUSE = ''House''"
| "member_value HOUSEHOLD = ''Household''"
| "member_value INCOME_TAX = ''Income Tax''"
| "member_value INSURANCE = ''Insurance''"
| "member_value INTERNET = ''Internet''"
| "member_value INTERNATIONAL_TRIP = ''International Trip''"
| "member_value INVESTMENT = ''Investment''"
| "member_value KITCHEN = ''Kitchen''"
| "member_value MAID = ''Maid''"
| "member_value MEDICAL = ''Medical''"
| "member_value PHONE = ''Phone''"
| "member_value PHILANTHROPY = ''Philanthropy''"
| "member_value PROCESSED_TRANSACTIONS = ''Processed Transactions''"
| "member_value PROFESSION = ''Profession''"
| "member_value RENT = ''Rent''"
| "member_value SALE = ''Sale''"
| "member_value SALON = ''Salon''"
| "member_value SCOOTER = ''Scooter''"
| "member_value COURIER = ''Courier''"
| "member_value PAYMENT = ''Payment''"
| "member_value PETROL = ''Petrol''"
| "member_value SHOPPING = ''Shopping''"
| "member_value SOFTWARE = ''Software''"
| "member_value SUBSCRIPTION = ''Subscription''"
| "member_value TAX = ''Tax''"
| "member_value TRANSPORTATION = ''Transportation''"
| "member_value TRAVEL = ''Travel''"
| "member_value UNCATEGORIZED = ''Uncategorized''"
| "member_value VALUE_ADD = ''Value Add''"
| "member_value WATER = ''Water''"
| "member_value WEDDING = ''Wedding''"
| "member_value INCOME = ''Income''"
| "member_value SALARY = ''Salary''"
| "member_value REFUND = ''Refund''"
| "member_value CASHBACK = ''Cashback''"
| "member_value INTEREST = ''Interest''"
| "member_value TRANSFER = ''Transfer''"

text \<open>
  \<open>Category.from_string\<close>. The argument is a string, so the \<open>isinstance\<close> guard
  is passed. The three rewrites of known variations come first, then the scan of the
  enum keys, then the scan of the upper-cased display values, then the fallback.
\<close>

definition normalize_search_value :: "string \<Rightarrow> string" where
  "normalize_search_value v =
     (let s0 = replace_space_underscore (strip (upper v));
          s1 = (if s0 = ''ENTERTAINTMENT'' then ''ENTERTAINMENT'' else s0);
          s2 = (if s1 = ''BODY'' then ''GYM'' else s1);
          s3 = (if s2 = ''HOUSE'' then ''HOUSEHOLD'' else s2)
      in s3)"

definition from_string :: "string \<Rightarrow> Category" where
  "from_string v =
     (case find (\<lambda>c. member_name c = normalize_search_value v) all_categories of
        Some c \<Rightarrow> c
      | None \<Rightarrow>
          (case find (\<lambda>c. upper (member_value c) = strip (upper v)) all_categories of
             Some c \<Rightarrow> c
           | None \<Rightarrow> UNCATEGORIZED))"

definition DEFAULT_CATEGORY_ENUM :: Category where
  "DEFAULT_CATEGORY_ENUM = UNCATEGORIZED"


section \<open>Transactions (models.py)\<close>

datatype txn_type = credit | debit

text \<open>
  The pydantic model \<open>Transaction\<close>. Amounts are Python floats; they are modelled as
  reals (finite values; \<open>None\<close> stands for a missing amount). Python's \<open>False\<close> and
  \<open>0\<close> are the same integer, so the flags are \<open>int option\<close>.
\<close>

record Transaction =
  date :: "string option"
  description :: string
  amount :: "real option"
  source_account :: "string option"
  short_description :: "string option"
  is_expense :: "int option"
  is_split :: "int option"
  category :: "Category option"
  transaction_type :: txn_type

text \<open>
  One object of the \<open>transactions\<close> list of a page answer, after
  \<open>TransactionList.model_validate_json\<close> accepted it. The answer is validated against
  the whole \<open>Transaction\<close> model, so besides the four fields the page prompt asks for
  (date, description, amount, transaction type) it may carry any other field of the
  model. For \<open>is_split\<close> the outer \<open>None\<close> stands for a key the answer does not have,
  \<open>Some None\<close> for \<open>null\<close>; for the other optional fields a missing key and \<open>null\<close>
  give the same value.
\<close>

record page_item =
  pg_date :: "string option"
  pg_description :: string
  pg_amount :: "real option"
  pg_transaction_type :: txn_type
  pg_source_account :: "string option"
  pg_short_description :: "string option"
  pg_is_expense :: "int option"
  pg_is_split :: "int option option"
  pg_category :: "Category option"

text \<open>
  The \<open>Transaction\<close> the validation creates: a field the answer carries is taken from
  it, a missing one takes the default of its \<open>Field(...)\<close> declaration, which is
  \<open>None\<close> except for \<open>is_split\<close>, declared \<open>Field(1, ...)\<close>.
\<close>

definition Transaction_of_page_item :: "page_item \<Rightarrow> Transaction" where
  "Transaction_of_page_item p =
     \<lparr> date = pg_date p, description = pg_description p, amount = pg_amount p,
       source_account = pg_source_account p,
       short_description = pg_short_description p,
       is_expense = pg_is_expense p,
       is_split = (case pg_is_split p of None \<Rightarrow> Some 1 | Some v \<Rightarrow> v),
       category = pg_category p,
       transaction_type = pg_transaction_type p \<rparr>"

text \<open>A page answer item that carries the four fields the prompt asks for and no
  other.\<close>

definition only_extracted_fields :: "page_item \<Rightarrow> bool" where
  "only_extracted_fields p =
     (pg_source_account p = None \<and> pg_short_description p = None
      \<and> pg_is_expense p = None \<and> pg_is_split p = None \<and> pg_category p = None)"


section \<open>Extraction stage (pdf\_parser.py, per page)\<close>

text \<open>
  \<open>parse_pdfs\<close>, the loop over the transactions of one validated page: the source
  account is attached, and a description containing \<open>achu\<close> (case-insensitively) sets
  \<open>is_split\<close> to 2.
\<close>

definition attach_account :: "string \<Rightarrow> Transaction \<Rightarrow> Transaction" where
  "attach_account acct tx =
     (let tx1 = tx\<lparr>source_account := Some acct\<rparr>
      in if contains ''achu'' (lower (description tx1)) then tx1\<lparr>is_split := Some 2\<rparr> else tx1)"

definition extract_page :: "string \<Rightarrow> page_item list \<Rightarrow> Transaction list" where
  "extract_page acct items = map (attach_account acct \<circ> Transaction_of_page_item) items"


section \<open>Enrichment stage (categorizer.py)\<close>

record AIProcessedTransaction =
  original_index :: int
  category_str :: string
  ai_is_expense :: int
  ai_is_split :: int

text \<open>
  What the environment of \<open>process_transactions_ai\<close> does in one call: no agent was
  initialised, the prompt failed to load, the agent call raised, the response failed
  validation, the response was of another type than \<open>AIProcessedBatch\<close>, or a
  well-shaped batch came back.
\<close>

datatype classifier =
    AgentNotInitialized
  | PromptError
  | AgentRaised
  | ValidationFailed
  | UnexpectedType
  | Batch "AIProcessedTransaction list"

text \<open>The two early-return branches fill in only the fields that are still unset.\<close>

definition assign_missing_defaults :: "Transaction \<Rightarrow> Transaction" where
  "assign_missing_defaults txn =
     txn\<lparr> category := (case category txn of Some c \<Rightarrow> Some c | None \<Rightarrow> Some DEFAULT_CATEGORY_ENUM),
           is_expense := (case is_expense txn of Some e \<Rightarrow> Some e | None \<Rightarrow> Some 1),
           is_split := (case is_split txn of Some s \<Rightarrow> Some s | None \<Rightarrow> Some 0) \<rparr>"

text \<open>The failure handler at the end overwrites the three fields.\<close>

definition assign_error_defaults :: "Transaction \<Rightarrow> Transaction" where
  "assign_error_defaults txn =
     txn\<lparr> category := Some DEFAULT_CATEGORY_ENUM, is_expense := Some 1, is_split := Some 0 \<rparr>"

text \<open>
  One iteration of the loop over the AI results: an index within \<open>0 \<le> i < len\<close>
  overwrites that transaction, any other index is logged and skipped.
\<close>

definition update_from_ai :: "AIProcessedTransaction \<Rightarrow> Transaction \<Rightarrow> Transaction" where
  "update_from_ai ai_txn original_txn =
     original_txn\<lparr> category := Some (from_string (category_str ai_txn)),
                    is_expense := Some (ai_is_expense ai_txn),
                    is_split := Some (ai_is_split ai_txn) \<rparr>"

definition apply_ai_result :: "AIProcessedTransaction \<Rightarrow> Transaction list \<Rightarrow> Transaction list" where
  "apply_ai_result ai_txn raw_transactions =
     (let original_idx = original_index ai_txn
      in if 0 \<le> original_idx \<and> original_idx < int (length raw_transactions)
         then raw_transactions[nat original_idx :=
                update_from_ai ai_txn (raw_transactions ! nat original_idx)]
         else raw_transactions)"

definition apply_ai_results :: "AIProcessedTransaction list \<Rightarrow> Transaction list \<Rightarrow> Transaction list" where
  "apply_ai_results results raw_transactions = fold apply_ai_result results raw_transactions"

fun process_transactions_ai :: "classifier \<Rightarrow> Transaction list \<Rightarrow> Transaction list" where
  "process_transactions_ai AgentNotInitialized raw_transactions =
     map assign_missing_defaults raw_transactions"
| "process_transactions_ai PromptError raw_transactions =
     map assign_missing_defaults raw_transactions"
| "process_transactions_ai (Batch results) raw_transactions =
     (if raw_transactions = [] then [] else apply_ai_results results raw_transactions)"
| "process_transactions_ai failure raw_transactions =
     (if raw_transactions = [] then [] else map assign_error_defaults raw_transactions)"

text \<open>
  \<open>main\<close>, after enrichment returned a non-empty list: every transaction whose
  category is still \<open>None\<close> gets the default category.
\<close>

definition ensure_category :: "Transaction \<Rightarrow> Transaction" where
  "ensure_category txn =
     (if category txn = None then txn\<lparr>category := Some DEFAULT_CATEGORY_ENUM\<rparr> else txn)"

definition filter_expenses :: "Transaction list \<Rightarrow> Transaction list" where
  "filter_expenses enriched_transactions =
     filter (\<lambda>t. (case is_expense t of None \<Rightarrow> 1 | Some e \<Rightarrow> e) = 1) enriched_transactions"


section \<open>Calendar dates and \<open>datetime.strptime\<close>\<close>

datatype pydate = Date (year: nat) (month: nat) (day: nat)

definition is_leap :: "nat \<Rightarrow> bool" where
  "is_leap y = (y mod 4 = 0 \<and> (y mod 100 \<noteq> 0 \<or> y mod 400 = 0))"

definition days_in_month :: "nat \<Rightarrow> nat \<Rightarrow> nat" where
  "days_in_month y m =
     (if m = 2 then (if is_leap y then 29 else 28)
      else if m = 4 \<or> m = 6 \<or> m = 9 \<or> m = 11 then 30 else 31)"

text \<open>\<open>datetime.date(y, m, d)\<close>: \<open>None\<close> stands for the \<open>ValueError\<close> of an
  out-of-range field.\<close>

definition make_date :: "int \<Rightarrow> int \<Rightarrow> int \<Rightarrow> pydate option" where
  "make_date y m d =
     (if 1 \<le> y \<and> y \<le> 9999 \<and> 1 \<le> m \<and> m \<le> 12 \<and> 1 \<le> d
         \<and> d \<le> int (days_in_month (nat y) (nat m))
      then Some (Date (nat y) (nat m) (nat d)) else None)"

text \<open>Dates compare by year, then month, then day.\<close>

definition date_le :: "pydate \<Rightarrow> pydate \<Rightarrow> bool" where
  "date_le a b =
     (year a < year b \<or>
      (year a = year b \<and> (month a < month b \<or> (month a = month b \<and> day a \<le> day b))))"

text \<open>\<open>d + relativedelta(months=1)\<close>: the next month, the day clipped to its length.\<close>

definition add_one_month :: "pydate \<Rightarrow> pydate option" where
  "add_one_month d =
     (let y = (if month d = 12 then year d + 1 else year d);
          m = (if month d = 12 then 1 else month d + 1)
      in make_date (int y) (int m) (int (min (day d) (days_in_month y m))))"

text \<open>\<open>d + timedelta(days=1)\<close>.\<close>

definition add_one_day :: "pydate \<Rightarrow> pydate option" where
  "add_one_day d =
     (if day d < days_in_month (year d) (month d)
      then make_date (int (year d)) (int (month d)) (int (day d) + 1)
      else if month d < 12 then make_date (int (year d)) (int (month d) + 1) 1
      else make_date (int (year d) + 1) 1 1)"

text \<open>
  \<open>strptime\<close> turns the format into a regular expression, matches it at the start of
  the input with Python's backtracking matcher, and rejects the input when text is left
  over. The fragment of regular expressions the directives need: a character class, a
  literal string, sequence, alternative, and \<open>\s+\<close>. Matching ignores case, as the
  compiled pattern does. \<open>rx_match\<close> lists the ways to match in the matcher's order of
  preference, each as (matched text, remaining text).
\<close>

datatype rx = Class string | Str string | Seq rx rx | Alt rx rx | Spaces

definition same_char_ignorecase :: "char \<Rightarrow> char \<Rightarrow> bool" where
  "same_char_ignorecase a b = (lower_char a = lower_char b)"

fun match_literal :: "string \<Rightarrow> string \<Rightarrow> (string \<times> string) list" where
  "match_literal [] s = [([], s)]"
| "match_literal (p # ps) [] = []"
| "match_literal (p # ps) (c # cs) =
     (if same_char_ignorecase p c
      then map (\<lambda>(u, r). (c # u, r)) (match_literal ps cs) else [])"

fun rx_match :: "rx \<Rightarrow> string \<Rightarrow> (string \<times> string) list" where
  "rx_match (Class cls) s =
     (case s of [] \<Rightarrow> []
      | c # cs \<Rightarrow> if list_ex (same_char_ignorecase c) cls then [([c], cs)] else [])"
| "rx_match (Str p) s = match_literal p s"
| "rx_match (Seq a b) s =
     concat (map (\<lambda>ur. map (\<lambda>vr. (fst ur @ fst vr, snd vr)) (rx_match b (snd ur)))
                 (rx_match a s))"
| "rx_match (Alt a b) s = rx_match a s @ rx_match b s"
| "rx_match Spaces s =
     map (\<lambda>n. (take n s, drop n s)) (rev [1 ..< Suc (length (takeWhile is_space s))])"

definition digit :: rx where
  "digit = Class ''0123456789''"

fun alternatives :: "rx list \<Rightarrow> rx" where
  "alternatives [] = Str []"
| "alternatives [r] = r"
| "alternatives (r # rs) = Alt r (alternatives rs)"

definition month_abbreviations :: "string list" where
  "month_abbreviations =
     [''jan'', ''feb'', ''mar'', ''apr'', ''may'', ''jun'',
      ''jul'', ''aug'', ''sep'', ''oct'', ''nov'', ''dec'']"

text \<open>
  The regular expressions of the directives, as \<open>_strptime.TimeRE\<close> defines them
  (English month abbreviations):
  \<^verbatim>\<open>%d  3[0-1]|[1-2]\d|0[1-9]|[1-9]| [1-9]\<close>,
  \<^verbatim>\<open>%m  1[0-2]|0[1-9]|[1-9]\<close>,
  \<^verbatim>\<open>%Y  \d\d\d\d\<close>, \<^verbatim>\<open>%y  \d\d\<close>,
  \<^verbatim>\<open>%H  2[0-3]|[0-1]\d|\d\<close>,
  \<^verbatim>\<open>%M  [0-5]\d|\d\<close>,
  \<^verbatim>\<open>%S  6[0-1]|[0-5]\d|\d\<close>,
  \<^verbatim>\<open>%b  jan|feb|...|dec\<close>.
  A directive outside this list has no entry.
\<close>

definition directive_rx :: "char \<Rightarrow> rx option" where
  "directive_rx c =
     (if c = CHR ''d'' then
        Some (alternatives
          [Seq (Str ''3'') (Class ''01''), Seq (Class ''12'') digit,
           Seq (Str ''0'') (Class ''123456789''), Class ''123456789'',
           Seq (Str '' '') (Class ''123456789'')])
      else if c = CHR ''m'' then
        Some (alternatives
          [Seq (Str ''1'') (Class ''012''), Seq (Str ''0'') (Class ''123456789''),
           Class ''123456789''])
      else if c = CHR ''Y'' then Some (Seq digit (Seq digit (Seq digit digit)))
      else if c = CHR ''y'' then Some (Seq digit digit)
      else if c = CHR ''H'' then
        Some (alternatives [Seq (Str ''2'') (Class ''0123''), Seq (Class ''01'') digit, digit])
      else if c = CHR ''M'' then
        Some (alternatives [Seq (Class ''012345'') digit, digit])
      else if c = CHR ''S'' then
        Some (alternatives [Seq (Str ''6'') (Class ''01''), Seq (Class ''012345'') digit, digit])
      else if c = CHR ''b'' then Some (alternatives (map Str month_abbreviations))
      else None)"

text \<open>
  A compiled format: directives (whose text is captured under the directive's letter),
  literal characters and whitespace runs (which become \<open>\s+\<close>).
\<close>

datatype fmt_item = Directive char rx | Literal rx

function compile_format :: "string \<Rightarrow> fmt_item list option" where
  "compile_format [] = Some []"
| "compile_format (c # cs) =
     (if c = CHR ''%'' then
        (case cs of
           [] \<Rightarrow> None
         | d # ds \<Rightarrow>
             (case directive_rx d of
                None \<Rightarrow> None
              | Some r \<Rightarrow> map_option ((#) (Directive d r)) (compile_format ds)))
      else if is_space c then
        map_option ((#) (Literal Spaces)) (compile_format (dropWhile is_space cs))
      else map_option ((#) (Literal (Str [c]))) (compile_format cs))"
  by pat_completeness auto
termination
  by (relation "measure length") (auto simp: le_imp_less_Suc length_dropWhile_le)

fun match_items :: "fmt_item list \<Rightarrow> string \<Rightarrow> ((char \<times> string) list \<times> string) list" where
  "match_items [] s = [([], s)]"
| "match_items (Directive d r # its) s =
     concat (map (\<lambda>ur. map (\<lambda>cr. ((d, fst ur) # fst cr, snd cr)) (match_items its (snd ur)))
                 (rx_match r s))"
| "match_items (Literal r # its) s =
     concat (map (\<lambda>ur. match_items its (snd ur)) (rx_match r s))"

definition digit_value :: "char \<Rightarrow> nat" where
  "digit_value c =
     (case map_of (zip ''0123456789'' [0, 1, 2, 3, 4, 5, 6, 7, 8, 9]) c of
        Some v \<Rightarrow> v | None \<Rightarrow> 0)"

text \<open>\<open>int(text)\<close> on a captured group: decimal digits, possibly after a blank.\<close>

definition int_of_text :: "string \<Rightarrow> nat" where
  "int_of_text s =
     fold (\<lambda>c n. 10 * n + digit_value c) (filter (\<lambda>c. c \<in> set ''0123456789'') s) 0"

fun index_of :: "'a \<Rightarrow> 'a list \<Rightarrow> nat" where
  "index_of x [] = 0"
| "index_of x (y # ys) = (if x = y then 0 else Suc (index_of x ys))"

text \<open>A parsed \<open>datetime\<close>: the date and the time of day.\<close>

record pydatetime =
  dt_date :: pydate
  dt_hour :: nat
  dt_minute :: nat
  dt_second :: nat

text \<open>
  The fields a match yields. Defaults are year 1900, month 1, day 1 and time 0; a
  two-digit year up to 68 lies in 2000--2068, above it in 1969--1999. Building the
  \<open>datetime\<close> fails on an invalid date and on seconds above 59.
\<close>

definition datetime_of_captures :: "(char \<times> string) list \<Rightarrow> pydatetime option" where
  "datetime_of_captures caps =
     (let num = (\<lambda>c. map_option int_of_text (map_of caps c));
          y = (case num CHR ''Y'' of
                 Some v \<Rightarrow> v
               | None \<Rightarrow>
                   (case num CHR ''y'' of
                      Some v \<Rightarrow> (if v \<le> 68 then v + 2000 else v + 1900)
                    | None \<Rightarrow> 1900));
          m = (case num CHR ''m'' of
                 Some v \<Rightarrow> v
               | None \<Rightarrow>
                   (case map_of caps CHR ''b'' of
                      Some t \<Rightarrow> Suc (index_of (lower t) month_abbreviations)
                    | None \<Rightarrow> 1));
          d = (case num CHR ''d'' of Some v \<Rightarrow> v | None \<Rightarrow> 1);
          hh = (case num CHR ''H'' of Some v \<Rightarrow> v | None \<Rightarrow> 0);
          mm = (case num CHR ''M'' of Some v \<Rightarrow> v | None \<Rightarrow> 0);
          ss = (case num CHR ''S'' of Some v \<Rightarrow> v | None \<Rightarrow> 0)
      in case make_date (int y) (int m) (int d) of
           None \<Rightarrow> None
         | Some dd \<Rightarrow>
             if hh \<le> 23 \<and> mm \<le> 59 \<and> ss \<le> 59
             then Some \<lparr> dt_date = dd, dt_hour = hh, dt_minute = mm, dt_second = ss \<rparr>
             else None)"

text \<open>\<open>datetime.datetime.strptime(data, fmt)\<close>; \<open>None\<close> stands for \<open>ValueError\<close>.\<close>

definition strptime :: "string \<Rightarrow> string \<Rightarrow> pydatetime option" where
  "strptime data fmt =
     (case compile_format fmt of
        None \<Rightarrow> None
      | Some items \<Rightarrow>
          (case match_items items data of
             [] \<Rightarrow> None
           | (caps, rest) # _ \<Rightarrow> if rest = [] then datetime_of_captures caps else None))"

text \<open>The loop both parsers share: the first format that parses wins.\<close>

fun try_formats :: "string list \<Rightarrow> string \<Rightarrow> pydatetime option" where
  "try_formats [] s = None"
| "try_formats (fmt # fmts) s =
     (case strptime s fmt of Some dt \<Rightarrow> Some dt | None \<Rightarrow> try_formats fmts s)"


section \<open>Date-window filter (main.py)\<close>

definition filter_formats_to_try :: "string list" where
  "filter_formats_to_try =
     [''%Y-%m-%d'', ''%d/%m/%Y'', ''%d-%b-%Y'',
      ''%b %d, %Y'', ''%d/%m/%Y %H:%M:%S'', ''%d-%b-%y'']"

text \<open>The inner loop of the filter over its formats, on a date string.\<close>

definition parse_transaction_date :: "string \<Rightarrow> pydate option" where
  "parse_transaction_date s = map_option dt_date (try_formats filter_formats_to_try s)"

text \<open>
  The loop over the transactions, with its three accumulators: the kept list, the
  count of out-of-range dates and the count of missing or unparseable dates. The
  \<open>date\<close> field is \<open>Optional[str]\<close>, so the branches for date objects are not taken.
\<close>

fun filter_loop ::
  "pydate \<Rightarrow> pydate \<Rightarrow> Transaction list \<Rightarrow> Transaction list \<times> nat \<times> nat
     \<Rightarrow> Transaction list \<times> nat \<times> nat" where
  "filter_loop start_date end_date_inclusive [] acc = acc"
| "filter_loop start_date end_date_inclusive (t # ts) (filtered_list, ignored_count, no_date_count) =
     (case date t of
        None \<Rightarrow>
          filter_loop start_date end_date_inclusive ts
            (filtered_list, ignored_count, no_date_count + 1)
      | Some s \<Rightarrow>
          (case parse_transaction_date s of
             None \<Rightarrow>
               filter_loop start_date end_date_inclusive ts
                 (filtered_list, ignored_count, no_date_count + 1)
           | Some transaction_date_obj \<Rightarrow>
               if date_le start_date transaction_date_obj
                  \<and> date_le transaction_date_obj end_date_inclusive
               then filter_loop start_date end_date_inclusive ts
                      (filtered_list @ [t], ignored_count, no_date_count)
               else filter_loop start_date end_date_inclusive ts
                      (filtered_list, ignored_count + 1, no_date_count)))"

text \<open>
  \<open>filter_transactions_by_date\<close>. Computing the window can raise (a month outside
  1..12, a year outside 1..9999, or a window that leaves year 9999); the handler then
  returns the list it was given.
\<close>

definition filter_transactions_by_date :: "Transaction list \<Rightarrow> int \<Rightarrow> int \<Rightarrow> Transaction list" where
  "filter_transactions_by_date transactions target_year target_month =
     (case make_date target_year target_month 1 of
        None \<Rightarrow> transactions
      | Some start_date \<Rightarrow>
          (case add_one_month start_date of
             None \<Rightarrow> transactions
           | Some first_day_next_month \<Rightarrow>
               (case add_one_day first_day_next_month of
                  None \<Rightarrow> transactions
                | Some end_date_inclusive \<Rightarrow>
                    fst (filter_loop start_date end_date_inclusive transactions ([], 0, 0)))))"


section \<open>Date written to the sheets (sheets\_handler.py)\<close>

definition sheet_formats_to_try :: "string list" where
  "sheet_formats_to_try = [''%d/%m/%Y'', ''%d-%b-%y'', ''%d/%m/%Y %H:%M:%S'']"

definition two_digits :: "nat \<Rightarrow> string" where
  "two_digits n = [''0123456789'' ! ((n div 10) mod 10), ''0123456789'' ! (n mod 10)]"

text \<open>
  \<open>strftime('%d/%m/%Y')\<close>: day and month with two digits, the year as the C library
  writes it, without leading zeros (\<open>999\<close> for the year 999).
\<close>

definition strftime_dmy :: "pydate \<Rightarrow> string" where
  "strftime_dmy d =
     two_digits (day d) @ ''/'' @ two_digits (month d) @ ''/''
       @ dropWhile (\<lambda>c. c = CHR ''0'')
           (two_digits (year d div 100) @ two_digits (year d mod 100))"

text \<open>\<open>parse_date_flexible\<close>: \<open>None\<close> and the empty string give the empty string, and
  so does a string that none of the three formats parses.\<close>

definition parse_date_flexible :: "string option \<Rightarrow> string" where
  "parse_date_flexible date_input =
     (case date_input of
        None \<Rightarrow> []
      | Some s \<Rightarrow>
          if s = [] then []
          else (case try_formats sheet_formats_to_try s of
                  Some parsed_date \<Rightarrow> strftime_dmy (dt_date parsed_date)
                | None \<Rightarrow> []))"

text \<open>The strings each of the two parsers accepts.\<close>

definition sheet_parser_accepts :: "string \<Rightarrow> bool" where
  "sheet_parser_accepts s = (try_formats sheet_formats_to_try s \<noteq> None)"

definition filter_parser_accepts :: "string \<Rightarrow> bool" where
  "filter_parser_accepts s = (try_formats filter_formats_to_try s \<noteq> None)"


section \<open>Checkpoint files (main.py)\<close>

text \<open>
  One object of a checkpoint file as \<open>json.load\<close> returns it. The loader inspects the
  JSON type of \<open>category\<close>, so that field is kept as read: absent, \<open>null\<close>, a string,
  or a value of another JSON type. The amount is kept as the \<open>clean_amount\<close> validator
  of the model leaves it: no amount, the float Python converts the JSON value to, or
  the \<open>OverflowError\<close> that \<open>float\<close> raises on a JSON integer beyond the range of
  floats. \<open>transaction_type\<close> is the string read, which the model accepts only when
  it is \<open>credit\<close> or \<open>debit\<close>. The other fields are taken with the JSON types that
  \<open>model_dump(mode='json')\<close> writes.
\<close>

datatype json_category = CategoryAbsent | CategoryNull | CategoryString string | CategoryOther

datatype cleaned_amount = AmountNone | AmountFloat real | AmountOverflowError

record item_dict =
  item_date :: "string option"
  item_description :: string
  item_amount :: cleaned_amount
  item_source_account :: "string option"
  item_short_description :: "string option"
  item_is_expense :: "int option"
  item_is_split :: "int option"
  item_category :: json_category
  item_transaction_type :: string

text \<open>\<open>t.model_dump(mode='json')\<close>: the category is written as its display value,
  the amount as a float.\<close>

definition model_dump_json :: "Transaction \<Rightarrow> item_dict" where
  "model_dump_json t =
     \<lparr> item_date = date t, item_description = description t,
       item_amount = (case amount t of None \<Rightarrow> AmountNone | Some a \<Rightarrow> AmountFloat a),
       item_source_account = source_account t,
       item_short_description = short_description t,
       item_is_expense = is_expense t, item_is_split = is_split t,
       item_category = (case category t of None \<Rightarrow> CategoryNull
                        | Some c \<Rightarrow> CategoryString (member_value c)),
       item_transaction_type = (case transaction_type t of credit \<Rightarrow> ''credit''
                                | debit \<Rightarrow> ''debit'') \<rparr>"

definition save_checkpoint :: "Transaction list \<Rightarrow> item_dict list" where
  "save_checkpoint transactions = map model_dump_json transactions"

text \<open>
  \<open>Transaction(**item_dict)\<close> once the loader has replaced date and category: the
  construction fails (\<open>None\<close>) on a transaction type outside the literal and on an
  amount that made the validator raise.
\<close>

definition construct_Transaction ::
  "item_dict \<Rightarrow> string option \<Rightarrow> Category option \<Rightarrow> Transaction option" where
  "construct_Transaction d the_date the_category =
     (if item_amount d \<noteq> AmountOverflowError
         \<and> (item_transaction_type d = ''credit'' \<or> item_transaction_type d = ''debit'') then
        Some \<lparr> date = the_date, description = item_description d,
               amount = (case item_amount d of AmountFloat a \<Rightarrow> Some a | _ \<Rightarrow> None),
               source_account = item_source_account d,
               short_description = item_short_description d,
               is_expense = item_is_expense d, is_split = item_is_split d,
               category = the_category,
               transaction_type =
                 (if item_transaction_type d = ''credit'' then credit else debit) \<rparr>
      else None)"

text \<open>
  Loading one item of the categorized checkpoint: a category string goes through
  \<open>from_string\<close>, a category of another type becomes \<open>None\<close>.
\<close>

definition deserialize_categorized_item :: "item_dict \<Rightarrow> Transaction option" where
  "deserialize_categorized_item d =
     construct_Transaction d (item_date d)
       (case item_category d of
          CategoryString s \<Rightarrow> Some (from_string s)
        | CategoryOther \<Rightarrow> None
        | CategoryNull \<Rightarrow> None
        | CategoryAbsent \<Rightarrow> None)"

text \<open>
  Loading one item of the processed checkpoint: a date string is replaced by what
  \<open>parse_date_flexible\<close> returns for it, and any category is discarded.
\<close>

definition deserialize_processed_item :: "item_dict \<Rightarrow> Transaction option" where
  "deserialize_processed_item d =
     construct_Transaction d
       (case item_date d of None \<Rightarrow> None | Some s \<Rightarrow> Some (parse_date_flexible (Some s)))
       None"

text \<open>The loops over the loaded items: an item that fails is logged and left out.\<close>

definition load_categorized :: "item_dict list \<Rightarrow> Transaction list" where
  "load_categorized loaded_dicts = List.map_filter deserialize_categorized_item loaded_dicts"

definition load_processed :: "item_dict list \<Rightarrow> Transaction list" where
  "load_processed loaded_dicts = List.map_filter deserialize_processed_item loaded_dicts"


section \<open>The run (main.py)\<close>

text \<open>
  What \<open>main\<close> finds and is answered: whether the configuration loaded and the
  credentials were obtained, the two checkpoint files (missing, not decodable, or a
  decoded list), what fetching and parsing the statements returns (\<open>None\<close> when
  Stage 1 raises), the target month, the classifier's behaviour and the answer typed
  at the confirmation prompt.
\<close>

datatype checkpoint_file = FileMissing | FileUnreadable | FileContent "item_dict list"

record run_input =
  config_loaded :: bool
  credentials_obtained :: bool
  categorized_transactions_file :: checkpoint_file
  processed_transactions_file :: checkpoint_file
  parsed_transactions :: "Transaction list option"
  run_year :: int
  run_month :: int
  run_classifier :: classifier
  proceed_answer :: string

datatype stage = Extraction | Enrichment

datatype resume_point = ResumeCategorized | ResumeProcessed | Fresh

datatype run_outcome =
    ExitNoConfiguration
  | ExitNoCredentials
  | ExitNoTransactions
  | AbortedByUser
  | UpdateGoogleSheet "Transaction list"

record run_result =
  resume_stage :: resume_point
  stages_run :: "stage list"
  processed_written :: "item_dict list option"
  categorized_written :: "item_dict list option"
  final_transactions :: "Transaction list option"
  outcome :: run_outcome

text \<open>The two-stage resume logic: the categorized file is checked first, the
  processed file only when the run did not resume from the categorized one.\<close>

definition resume_from_checkpoints ::
  "checkpoint_file \<Rightarrow> checkpoint_file
     \<Rightarrow> resume_point \<times> Transaction list option \<times> Transaction list option" where
  "resume_from_checkpoints cat_file proc_file =
     (case cat_file of
        FileContent (d # ds) \<Rightarrow> (ResumeCategorized, None, Some (load_categorized (d # ds)))
      | _ \<Rightarrow>
          (case proc_file of
             FileContent (d # ds) \<Rightarrow> (ResumeProcessed, Some (load_processed (d # ds)), None)
           | _ \<Rightarrow> (Fresh, None, None)))"

text \<open>Stage 1 of a fresh run: filter what was parsed, save it when non-empty.\<close>

definition run_stage1 ::
  "run_input \<Rightarrow> Transaction list option \<times> item_dict list option" where
  "run_stage1 inp =
     (case parsed_transactions inp of
        None \<Rightarrow> (None, None)
      | Some parsed \<Rightarrow>
          (let all_transactions = filter_transactions_by_date parsed (run_year inp) (run_month inp)
           in (Some all_transactions,
               if all_transactions = [] then None
               else Some (save_checkpoint all_transactions))))"

text \<open>Stage 2: enrich, default the missing categories, save.\<close>

definition run_stage2 ::
  "classifier \<Rightarrow> Transaction list \<Rightarrow> Transaction list \<times> item_dict list option" where
  "run_stage2 cls all_transactions =
     (let enriched_transactions = process_transactions_ai cls all_transactions
      in if enriched_transactions = [] then ([], None)
         else (let final = map ensure_category enriched_transactions
               in (final, Some (save_checkpoint final))))"

definition run_pipeline :: "run_input \<Rightarrow> run_result" where
  "run_pipeline inp =
     (let (resume, all0, final0) =
            resume_from_checkpoints (categorized_transactions_file inp)
              (processed_transactions_file inp);
          (all1, proc_w, trace1) =
            (if resume = Fresh
             then (let (a, w) = run_stage1 inp in (a, w, [Extraction]))
             else (all0, None, []));
          (final1, cat_w, trace2) =
            (if resume = Fresh \<or> resume = ResumeProcessed then
               (case all1 of
                  None \<Rightarrow> (final0, None, trace1)
                | Some [] \<Rightarrow> (final0, None, trace1)
                | Some (t # ts) \<Rightarrow>
                    (let (f, w) = run_stage2 (run_classifier inp) (t # ts)
                     in (Some f, w, trace1 @ [Enrichment])))
             else (final0, None, trace1))
      in \<lparr> resume_stage = resume, stages_run = trace2,
           processed_written = proc_w, categorized_written = cat_w,
           final_transactions = final1,
           outcome =
             (case final1 of
                None \<Rightarrow> ExitNoTransactions
              | Some [] \<Rightarrow> ExitNoTransactions
              | Some (t # ts) \<Rightarrow>
                  if strip (lower (proceed_answer inp)) = ''yes''
                  then UpdateGoogleSheet (t # ts) else AbortedByUser) \<rparr>)"

definition early_exit :: "run_outcome \<Rightarrow> run_result" where
  "early_exit why =
     \<lparr> resume_stage = Fresh, stages_run = [], processed_written = None,
       categorized_written = None, final_transactions = None, outcome = why \<rparr>"

text \<open>\<open>main\<close>: without configuration or credentials it returns before looking at
  the checkpoints.\<close>

definition main :: "run_input \<Rightarrow> run_result" where
  "main inp =
     (if \<not> config_loaded inp then early_exit ExitNoConfiguration
      else if \<not> credentials_obtained inp then early_exit ExitNoCredentials
      else run_pipeline inp)"


section \<open>Rows written to the account sheets (sheets\_handler.py)\<close>

datatype cell = Text string | Number real

text \<open>
  The sign applied to the \<open>amount\<close> column: \<open>-abs\<close> for a credit, \<open>abs\<close> for a
  debit; a missing amount stays missing.
\<close>

definition signed_amount :: "Transaction \<Rightarrow> real option" where
  "signed_amount row =
     (case amount row of
        None \<Rightarrow> None
      | Some a \<Rightarrow>
          (case transaction_type row of
             credit \<Rightarrow> Some (- \<bar>a\<bar>)
           | debit \<Rightarrow> Some \<bar>a\<bar>))"

definition fillna_text :: "string option \<Rightarrow> cell" where
  "fillna_text v = (case v of None \<Rightarrow> Text [] | Some s \<Rightarrow> Text s)"

definition fillna_int :: "int option \<Rightarrow> cell" where
  "fillna_int v = (case v of None \<Rightarrow> Text [] | Some i \<Rightarrow> Number (of_int i))"

definition fillna_real :: "real option \<Rightarrow> cell" where
  "fillna_real v = (case v of None \<Rightarrow> Text [] | Some r \<Rightarrow> Number r)"

text \<open>
  One data row in the column order \<open>date, is_expense, category, short_description,
  description, amount, is_split\<close>, missing values written as the empty string.
\<close>

definition output_row :: "Transaction \<Rightarrow> cell list" where
  "output_row t =
     [Text (parse_date_flexible (date t)),
      fillna_int (is_expense t),
      fillna_text (map_option member_value (category t)),
      fillna_text (short_description t),
      Text (description t),
      fillna_real (signed_amount t),
      fillna_int (is_split t)]"


section \<open>Sheet synchronisation (sheets\_handler.py)\<close>

text \<open>
  The remote workbook is the ordered list of its sheet titles, which the service keeps
  distinct. The three calls the synchronisation makes can be refused by the service:
  it does not delete the only sheet of a workbook, and it does not give a sheet a title
  another sheet has. \<open>None\<close> stands for the exception, which the caller logs.
\<close>

definition del_worksheet :: "string list \<Rightarrow> string \<Rightarrow> string list option" where
  "del_worksheet workbook title =
     (if title \<in> set workbook \<and> 1 < length workbook then Some (remove1 title workbook)
      else None)"

definition add_worksheet :: "string list \<Rightarrow> string \<Rightarrow> string list option" where
  "add_worksheet workbook title =
     (if title \<in> set workbook then None else Some (workbook @ [title]))"

definition update_title :: "string list \<Rightarrow> string \<Rightarrow> string \<Rightarrow> string list option" where
  "update_title workbook old new =
     (if old \<notin> set workbook \<or> (new \<in> set workbook \<and> new \<noteq> old) then None
      else Some (map (\<lambda>t. if t = old then new else t) workbook))"

datatype sheet_op = DeleteSheet string | AddSheet string | RenameSheet string string

text \<open>
  The state of the synchronisation: the remote workbook, the local set
  \<open>existing_sheet_names\<close> (kept as a list without repetitions), and the create, delete
  and rename calls that succeeded so far.
\<close>

record sync_state =
  workbook :: "string list"
  existing_sheet_names :: "string list"
  ops :: "sheet_op list"

definition delete_step :: "string \<Rightarrow> sync_state \<Rightarrow> sync_state" where
  "delete_step sheet_name st =
     (if length (existing_sheet_names st) = 1 \<and> sheet_name = ''Sheet1'' then st
      else (case del_worksheet (workbook st) sheet_name of
              None \<Rightarrow> st
            | Some wb \<Rightarrow>
                st\<lparr> workbook := wb,
                    existing_sheet_names := removeAll sheet_name (existing_sheet_names st),
                    ops := ops st @ [DeleteSheet sheet_name] \<rparr>))"

text \<open>
  The sheets to delete are a Python set, iterated in the order of the hashes of its
  elements: \<open>hash_order\<close> stands for that order.
\<close>

definition delete_phase :: "(string \<Rightarrow> nat) \<Rightarrow> string list \<Rightarrow> sync_state \<Rightarrow> sync_state" where
  "delete_phase hash_order target_sheet_names st =
     (let sheets_to_delete =
            sort_key hash_order
              (filter (\<lambda>n. n \<notin> set target_sheet_names) (existing_sheet_names st));
          can_delete = (1 < length (existing_sheet_names st) \<or> sheets_to_delete = [])
      in if sheets_to_delete \<noteq> [] \<and> can_delete then fold delete_step sheets_to_delete st
         else st)"

definition add_step :: "string \<Rightarrow> sync_state \<Rightarrow> sync_state" where
  "add_step sheet_name st =
     (if ''Sheet1'' \<in> set (existing_sheet_names st) \<and> length (existing_sheet_names st) = 1
      then (case update_title (workbook st) ''Sheet1'' sheet_name of
              None \<Rightarrow> st
            | Some wb \<Rightarrow>
                st\<lparr> workbook := wb,
                    existing_sheet_names :=
                      List.insert sheet_name (removeAll ''Sheet1'' (existing_sheet_names st)),
                    ops := ops st @ [RenameSheet ''Sheet1'' sheet_name] \<rparr>)
      else (case add_worksheet (workbook st) sheet_name of
              None \<Rightarrow> st
            | Some wb \<Rightarrow>
                st\<lparr> workbook := wb,
                    existing_sheet_names := List.insert sheet_name (existing_sheet_names st),
                    ops := ops st @ [AddSheet sheet_name] \<rparr>))"

text \<open>The set \<open>sheets_to_add\<close> is computed once; the loop runs over the target list
  in its order and acts on the names in that set.\<close>

definition add_phase :: "string list \<Rightarrow> sync_state \<Rightarrow> sync_state" where
  "add_phase target_sheet_names st =
     (let sheets_to_add =
            filter (\<lambda>n. n \<notin> set (existing_sheet_names st)) target_sheet_names
      in fold add_step (filter (\<lambda>n. n \<in> set sheets_to_add) target_sheet_names) st)"

text \<open>
  Reordering: the sheets sorted (stably) by their position in the target list, a sheet
  outside the list getting the key 999. A name repeated in the target list has the
  position of its last occurrence, as the dictionary comprehension leaves it.
\<close>

definition target_order :: "string list \<Rightarrow> string \<Rightarrow> nat" where
  "target_order target_sheet_names title =
     (case map_of (rev (zip target_sheet_names [0 ..< length target_sheet_names])) title of
        Some i \<Rightarrow> i
      | None \<Rightarrow> 999)"

definition reorder_phase :: "string list \<Rightarrow> sync_state \<Rightarrow> sync_state" where
  "reorder_phase target_sheet_names st =
     st\<lparr> workbook := sort_key (target_order target_sheet_names) (workbook st) \<rparr>"

text \<open>One run of the synchronisation on a workbook.\<close>

definition sync_sheets :: "(string \<Rightarrow> nat) \<Rightarrow> string list \<Rightarrow> string list \<Rightarrow> sync_state" where
  "sync_sheets hash_order target_sheet_names wb =
     reorder_phase target_sheet_names
       (add_phase target_sheet_names
          (delete_phase hash_order target_sheet_names
             \<lparr> workbook = wb, existing_sheet_names = wb, ops = [] \<rparr>))"

definition creates_and_deletes :: "sheet_op list \<Rightarrow> sheet_op list" where
  "creates_and_deletes os =
     filter (\<lambda>op. case op of RenameSheet a b \<Rightarrow> False | _ \<Rightarrow> True) os"


section \<open>Split-share formulas (sheets\_handler.py)\<close>

text \<open>
  The formulas are spreadsheet text; they are represented by their syntax tree and
  evaluated on one row. The columns they read are B (is Expense), F (Cost) and
  G (Is Split). \<open>IF\<close> evaluates only the branch it selects, a division by zero is an
  error (\<open>None\<close>), and \<open>ROUND\<close> rounds to the nearest integer, halves away from zero.
\<close>

datatype column = ColB | ColF | ColG

datatype formula =
    Ref column
  | Num real
  | Mul formula formula
  | Div formula formula
  | IfEq formula formula formula formula
  | IfNeq formula formula formula formula
  | ROUND formula

definition round_half_away :: "real \<Rightarrow> real" where
  "round_half_away x =
     (if 0 \<le> x then of_int \<lfloor>x + 1 / 2\<rfloor> else - of_int \<lfloor>- x + 1 / 2\<rfloor>)"

fun eval_formula :: "(column \<Rightarrow> real) \<Rightarrow> formula \<Rightarrow> real option" where
  "eval_formula row (Ref c) = Some (row c)"
| "eval_formula row (Num x) = Some x"
| "eval_formula row (Mul a b) =
     (case (eval_formula row a, eval_formula row b) of (Some x, Some y) \<Rightarrow> Some (x * y) | _ \<Rightarrow> None)"
| "eval_formula row (Div a b) =
     (case (eval_formula row a, eval_formula row b) of
        (Some x, Some y) \<Rightarrow> if y = 0 then None else Some (x / y)
      | _ \<Rightarrow> None)"
| "eval_formula row (IfEq a b t e) =
     (case (eval_formula row a, eval_formula row b) of
        (Some x, Some y) \<Rightarrow> if x = y then eval_formula row t else eval_formula row e
      | _ \<Rightarrow> None)"
| "eval_formula row (IfNeq a b t e) =
     (case (eval_formula row a, eval_formula row b) of
        (Some x, Some y) \<Rightarrow> if x \<noteq> y then eval_formula row t else eval_formula row e
      | _ \<Rightarrow> None)"
| "eval_formula row (ROUND a) = map_option round_half_away (eval_formula row a)"

text \<open>
  The templates of \<open>_apply_row_formulas\<close>. On the Achu sheet:
  \<^verbatim>\<open>=IF(G=0, F, IF(G=1, F/2, IF(G=2, 0, 0)))\<close> and
  \<^verbatim>\<open>=IF(G=0, 0, IF(G=1, F/2, IF(G=2, F, 0)))\<close>;
  on every other sheet:
  \<^verbatim>\<open>=ROUND(IF(G<>0, B*F/G, 0))\<close> and
  \<^verbatim>\<open>=ROUND(IF(G<>1, IF(G<>0, B*F/G, B*F), 0))\<close>.
\<close>

definition appu_formula_template :: "bool \<Rightarrow> formula" where
  "appu_formula_template is_achu_sheet =
     (if is_achu_sheet then
        IfEq (Ref ColG) (Num 0) (Ref ColF)
          (IfEq (Ref ColG) (Num 1) (Div (Ref ColF) (Num 2))
             (IfEq (Ref ColG) (Num 2) (Num 0) (Num 0)))
      else
        ROUND (IfNeq (Ref ColG) (Num 0) (Div (Mul (Ref ColB) (Ref ColF)) (Ref ColG)) (Num 0)))"

definition achu_formula_template :: "bool \<Rightarrow> formula" where
  "achu_formula_template is_achu_sheet =
     (if is_achu_sheet then
        IfEq (Ref ColG) (Num 0) (Num 0)
          (IfEq (Ref ColG) (Num 1) (Div (Ref ColF) (Num 2))
             (IfEq (Ref ColG) (Num 2) (Ref ColF) (Num 0)))
      else
        ROUND (IfNeq (Ref ColG) (Num 1)
                 (IfNeq (Ref ColG) (Num 0) (Div (Mul (Ref ColB) (Ref ColF)) (Ref ColG))
                    (Mul (Ref ColB) (Ref ColF)))
                 (Num 0)))"

text \<open>A populated row as the formulas see it: expense flag, cost, split flag.\<close>

definition sheet_row :: "real \<Rightarrow> real \<Rightarrow> real \<Rightarrow> column \<Rightarrow> real" where
  "sheet_row is_expense_flag cost split_flag c =
     (case c of ColB \<Rightarrow> is_expense_flag | ColF \<Rightarrow> cost | ColG \<Rightarrow> split_flag)"

text \<open>The values of the two formula columns (Appu's share, Achu's share) on a row.\<close>

definition split_shares :: "bool \<Rightarrow> (column \<Rightarrow> real) \<Rightarrow> real option \<times> real option" where
  "split_shares is_achu_sheet row =
     (eval_formula row (appu_formula_template is_achu_sheet),
      eval_formula row (achu_formula_template is_achu_sheet))"

text \<open>The formulas are written for every row from \<open>start_row\<close> to \<open>end_row\<close>.\<close>

definition apply_row_formulas :: "bool \<Rightarrow> nat \<Rightarrow> nat \<Rightarrow> (nat \<times> formula \<times> formula) list" where
  "apply_row_formulas is_achu_sheet start_row end_row =
     map (\<lambda>row. (row, appu_formula_template is_achu_sheet, achu_formula_template is_achu_sheet))
         [start_row ..< Suc end_row]"


section \<open>Example data\<close>

text \<open>A page answer item for a statement line of 120.0 with a given date, description
  and type, carrying only the four fields the prompt asks for.\<close>

definition example_line :: "string \<Rightarrow> string \<Rightarrow> txn_type \<Rightarrow> page_item" where
  "example_line d desc ty =
     \<lparr> pg_date = Some d, pg_description = desc, pg_amount = Some 120,
       pg_transaction_type = ty, pg_source_account = None, pg_short_description = None,
       pg_is_expense = None, pg_is_split = None, pg_category = None \<rparr>"

text \<open>A page with one statement line that names Achu, as extraction returns it.\<close>

definition example_achu_page :: "Transaction list" where
  "example_achu_page =
     extract_page ''HDFC Savings'' [example_line ''01/03/2024'' ''UPI to Achu'' debit]"

text \<open>Five transactions as extraction leaves them, all on one account.\<close>

definition example_batch :: "Transaction list" where
  "example_batch =
     extract_page ''HDFC Savings''
       [example_line ''01/03/2024'' ''SWIGGY ORDER'' debit,
        example_line ''02/03/2024'' ''ATM WITHDRAWAL'' debit,
        example_line ''03/03/2024'' ''BIG BASKET'' debit,
        example_line ''04/03/2024'' ''UPI TRANSFER'' debit,
        example_line ''05/03/2024'' ''SALARY MARCH'' credit]"

text \<open>A classifier response with three results in range and one whose index is not.\<close>

definition example_results :: "AIProcessedTransaction list" where
  "example_results =
     [\<lparr> original_index = 0, category_str = ''Food'', ai_is_expense = 1, ai_is_split = 1 \<rparr>,
      \<lparr> original_index = 2, category_str = ''Grocery'', ai_is_expense = 1, ai_is_split = 0 \<rparr>,
      \<lparr> original_index = 7, category_str = ''Rent'', ai_is_expense = 1, ai_is_split = 0 \<rparr>,
      \<lparr> original_index = 4, category_str = ''Salary'', ai_is_expense = 0, ai_is_split = 0 \<rparr>]"

text \<open>A categorized transaction with a given category.\<close>

definition example_categorized :: "Category \<Rightarrow> Transaction" where
  "example_categorized c =
     \<lparr> date = Some ''01/03/2024'', description = ''CULT FIT'', amount = Some 120,
       source_account = Some ''HDFC Savings'', short_description = None,
       is_expense = Some 1, is_split = Some 0, category = Some c,
       transaction_type = debit \<rparr>"

text \<open>A transaction of 120.0 (stored with a given sign) of a given type.\<close>

definition example_amount :: "real \<Rightarrow> txn_type \<Rightarrow> Transaction" where
  "example_amount a ty = (example_categorized FOOD)\<lparr> amount := Some a, transaction_type := ty \<rparr>"

text \<open>A transaction with a given date string.\<close>

definition example_dated :: "string \<Rightarrow> Transaction" where
  "example_dated d = (example_categorized FOOD)\<lparr> date := Some d \<rparr>"

text \<open>A run that finds a categorized checkpoint of two records, next to a processed
  checkpoint, and is answered \<open>yes\<close>.\<close>

definition example_run :: run_input where
  "example_run =
     \<lparr> config_loaded = True, credentials_obtained = True,
       categorized_transactions_file =
         FileContent (save_checkpoint [example_categorized FOOD, example_categorized RENT]),
       processed_transactions_file = FileContent (save_checkpoint example_batch),
       parsed_transactions = Some example_batch,
       run_year = 2024, run_month = 3,
       run_classifier = AgentRaised,
       proceed_answer = ''Yes'' \<rparr>"

text \<open>The fixed part of every target sheet list.\<close>

definition base_sheets :: "string list" where
  "base_sheets = [''Cash'', ''Achu'', ''Final Recon'', ''Reporting'']"


section \<open>Fields the enrichment fills\<close>

text \<open>Short description, category and expense flag are all unset.\<close>

definition enrichment_fields_unset :: "Transaction \<Rightarrow> bool" where
  "enrichment_fields_unset t =
     (short_description t = None \<and> category t = None \<and> is_expense t = None)"


section \<open>The state of a synchronisation run\<close>

text \<open>The state a run starts from on a workbook.\<close>

definition initial_state :: "string list \<Rightarrow> sync_state" where
  "initial_state wb = \<lparr> workbook = wb, existing_sheet_names = wb, ops = [] \<rparr>"

text \<open>The local set of names agrees with the remote workbook, and no title is
  repeated.\<close>

definition sync_inv :: "sync_state \<Rightarrow> bool" where
  "sync_inv st = (set (existing_sheet_names st) = set (workbook st)
                  \<and> distinct (workbook st) \<and> distinct (existing_sheet_names st))"


section \<open>Verification: evaluation rules\<close>

lemmas string_eval =
  upper_def upper_char_def lower_def lower_char_def strip_def is_space_def
  replace_space_underscore_def lowercase_letters_def uppercase_letters_def

lemmas from_string_eval =
  from_string_def normalize_search_value_def all_categories_def string_eval

lemmas example_eval =
  example_batch_def example_achu_page_def example_results_def example_line_def
  extract_page_def attach_account_def Transaction_of_page_item_def


section \<open>Verification: amount sign on the account sheets\<close>

text \<open>
  C9. The amount written to an account sheet takes its sign from the transaction type:
  a debit is written as the magnitude of the stored amount, a credit as minus that
  magnitude, whatever sign the stored amount carried.
\<close>

theorem amount_sign_derived:
  assumes "amount t = Some a"
  shows "signed_amount t = Some (if transaction_type t = debit then \<bar>a\<bar> else - \<bar>a\<bar>)
       \<and> output_row t ! 5 = Number (if transaction_type t = debit then \<bar>a\<bar> else - \<bar>a\<bar>)"
  using assms
  by (cases "transaction_type t") (simp_all add: signed_amount_def output_row_def fillna_real_def)

text \<open>A debit of 120.0 is written as 120.0 and a credit of 120.0 as -120.0, also when
  the stored amount was -120.0.\<close>

theorem amount_sign_derived_witness:
  "output_row (example_amount 120 debit) ! 5 = Number 120
   \<and> output_row (example_amount 120 credit) ! 5 = Number (- 120)
   \<and> output_row (example_amount (- 120) debit) ! 5 = Number 120
   \<and> output_row (example_amount (- 120) credit) ! 5 = Number (- 120)"
  using amount_sign_derived [of "example_amount 120 debit" 120]
        amount_sign_derived [of "example_amount 120 credit" 120]
        amount_sign_derived [of "example_amount (- 120) debit" "- 120"]
        amount_sign_derived [of "example_amount (- 120) credit" "- 120"]
  by (simp add: example_amount_def example_categorized_def)


section \<open>Verification: enrichment\<close>

lemma length_apply_ai_result: "length (apply_ai_result r txs) = length txs"
  by (simp add: apply_ai_result_def Let_def)

lemma length_apply_ai_results: "length (apply_ai_results rs txs) = length txs"
  unfolding apply_ai_results_def
  by (induction rs arbitrary: txs) (simp_all add: length_apply_ai_result)

lemma apply_ai_results_snoc:
  "apply_ai_results (rs @ [r]) txs = apply_ai_result r (apply_ai_results rs txs)"
  by (simp add: apply_ai_results_def)

text \<open>After the loop over the results, transaction \<open>i\<close> carries the last result whose
  index is \<open>i\<close>, and is as before when there is none.\<close>

lemma apply_ai_results_nth:
  "i < length txs \<Longrightarrow>
   apply_ai_results rs txs ! i =
     (case find (\<lambda>r. original_index r = int i) (rev rs) of
        None \<Rightarrow> txs ! i
      | Some r \<Rightarrow> update_from_ai r (txs ! i))"
proof (induction rs rule: rev_induct)
  case Nil
  then show ?case by (simp add: apply_ai_results_def)
next
  case (snoc r rs)
  let ?xs = "apply_ai_results rs txs"
  have len: "length ?xs = length txs" by (rule length_apply_ai_results)
  show ?case
  proof (cases "original_index r = int i")
    case True
    then have "apply_ai_result r ?xs ! i = update_from_ai r (?xs ! i)"
      using snoc.prems len by (simp add: apply_ai_result_def)
    moreover have "update_from_ai r (?xs ! i) = update_from_ai r (txs ! i)"
      using snoc.IH [OF snoc.prems] by (simp add: update_from_ai_def split: option.splits)
    ultimately show ?thesis using True by (simp add: apply_ai_results_snoc)
  next
    case False
    then have "apply_ai_result r ?xs ! i = ?xs ! i"
      by (auto simp: apply_ai_result_def Let_def nth_list_update)
    then show ?thesis using False snoc.IH [OF snoc.prems] by (simp add: apply_ai_results_snoc)
  qed
qed

lemma run_stage2_Batch:
  "fst (run_stage2 (Batch results) txs) = map ensure_category (apply_ai_results results txs)"
proof (cases "txs = []")
  case True
  then show ?thesis
    using length_apply_ai_results [of results "[]"] by (simp add: run_stage2_def)
next
  case False
  then have "apply_ai_results results txs \<noteq> []"
    using length_apply_ai_results [of results txs] by (metis length_0_conv)
  then show ?thesis using False by (simp add: run_stage2_def Let_def)
qed

text \<open>
  C4, as amended. When the classifier returns a well-shaped batch, the enrichment step
  followed by the defaulting of missing categories keeps the number of transactions, and
  transaction \<open>i\<close> ends as follows. If some result carries the index \<open>i\<close>, its category,
  expense flag and split flag are those of the last such result (the category resolved
  from the result's string) and nothing else changes. If no result carries the index
  \<open>i\<close> (results with an index outside the batch match no transaction), only its
  category changes, to the fallback when it was unset; its expense flag and split flag
  stay as they were.
\<close>

theorem enrichment_matches_by_index:
  assumes "i < length txs"
  shows "length (fst (run_stage2 (Batch results) txs)) = length txs
       \<and> fst (run_stage2 (Batch results) txs) ! i =
           (case find (\<lambda>r. original_index r = int i) (rev results) of
              None \<Rightarrow>
                (txs ! i)\<lparr> category :=
                  Some (case category (txs ! i) of None \<Rightarrow> UNCATEGORIZED | Some c \<Rightarrow> c) \<rparr>
            | Some r \<Rightarrow>
                (txs ! i)\<lparr> category := Some (from_string (category_str r)),
                           is_expense := Some (ai_is_expense r),
                           is_split := Some (ai_is_split r) \<rparr>)"
proof -
  have "ensure_category t =
          t\<lparr> category := Some (case category t of None \<Rightarrow> UNCATEGORIZED | Some c \<Rightarrow> c) \<rparr>" for t
    by (cases "category t") (simp_all add: ensure_category_def DEFAULT_CATEGORY_ENUM_def)
  moreover have "ensure_category (update_from_ai r t) = update_from_ai r t" for r t
    by (simp add: ensure_category_def update_from_ai_def)
  ultimately show ?thesis
    using assms
    by (simp add: run_stage2_Batch length_apply_ai_results apply_ai_results_nth
          update_from_ai_def split: option.splits)
qed

text \<open>Five transactions, three results in range and one with index 7: the transactions
  at positions 1 and 3 end with the fallback category, no expense flag and split flag 1;
  the other three carry their results.\<close>

theorem enrichment_matches_by_index_witness:
  "(1::nat) < length example_batch
   \<and> fst (run_stage2 (Batch example_results) example_batch) ! 1 =
       (example_batch ! 1)\<lparr> category := Some UNCATEGORIZED \<rparr>
   \<and> map (\<lambda>t. (category t, is_expense t, is_split t))
        (fst (run_stage2 (Batch example_results) example_batch)) =
      [(Some FOOD, Some 1, Some 1), (Some UNCATEGORIZED, None, Some 1),
       (Some GROCERY, Some 1, Some 0), (Some UNCATEGORIZED, None, Some 1),
       (Some SALARY, Some 0, Some 0)]"
  using enrichment_matches_by_index [of 1 example_batch example_results]
  by (simp add: run_stage2_def Let_def apply_ai_results_def apply_ai_result_def
        update_from_ai_def ensure_category_def DEFAULT_CATEGORY_ENUM_def example_eval
        from_string_eval)

text \<open>In that batch the two transactions no result touched do not end with the
  fallback flags (expense flag 1, split flag 0): their expense flag is still unset and
  their split flag is still 1.\<close>

theorem untouched_keep_prior_flags:
  "is_expense (fst (run_stage2 (Batch example_results) example_batch) ! 1) = None
   \<and> is_split (fst (run_stage2 (Batch example_results) example_batch) ! 1) = Some 1
   \<and> is_expense (fst (run_stage2 (Batch example_results) example_batch) ! 3) = None
   \<and> is_split (fst (run_stage2 (Batch example_results) example_batch) ! 3) = Some 1"
  by (simp add: run_stage2_def Let_def apply_ai_results_def apply_ai_result_def
        update_from_ai_def ensure_category_def DEFAULT_CATEGORY_ENUM_def example_eval
        string_eval)

text \<open>
  C3, as amended. When the classifier call raises, or its response fails validation or
  has an unexpected type, every transaction of the batch ends with the fallback
  category, expense flag 1 and split flag 0, the same for the three causes. When no
  classifier is initialised, each transaction keeps the category, expense flag and split
  flag it already has, and only an unset one becomes the fallback category, 1 or 0.
\<close>

theorem failed_batch_defaults:
  "process_transactions_ai AgentRaised txs =
     map (\<lambda>t. t\<lparr> category := Some UNCATEGORIZED, is_expense := Some 1, is_split := Some 0 \<rparr>) txs
   \<and> process_transactions_ai ValidationFailed txs = process_transactions_ai AgentRaised txs
   \<and> process_transactions_ai UnexpectedType txs = process_transactions_ai AgentRaised txs
   \<and> process_transactions_ai AgentNotInitialized txs =
       map (\<lambda>t. t\<lparr> category := Some (case category t of None \<Rightarrow> UNCATEGORIZED | Some c \<Rightarrow> c),
                    is_expense := Some (case is_expense t of None \<Rightarrow> 1 | Some e \<Rightarrow> e),
                    is_split := Some (case is_split t of None \<Rightarrow> 0 | Some s \<Rightarrow> s) \<rparr>) txs"
proof -
  have a: "assign_error_defaults =
       (\<lambda>t. t\<lparr> category := Some UNCATEGORIZED, is_expense := Some 1, is_split := Some 0 \<rparr>)"
    by (simp add: assign_error_defaults_def DEFAULT_CATEGORY_ENUM_def fun_eq_iff)
  have b: "assign_missing_defaults t =
       t\<lparr> category := Some (case category t of None \<Rightarrow> UNCATEGORIZED | Some c \<Rightarrow> c),
          is_expense := Some (case is_expense t of None \<Rightarrow> 1 | Some e \<Rightarrow> e),
          is_split := Some (case is_split t of None \<Rightarrow> 0 | Some s \<Rightarrow> s) \<rparr>" for t
    by (simp add: assign_missing_defaults_def DEFAULT_CATEGORY_ENUM_def split: option.splits)
  show ?thesis by (simp add: a b)
qed

text \<open>On a page whose single transaction extraction gave the split flag 2: a
  classifier that raises leaves (fallback, 1, 0); without a classifier the transaction
  ends with (fallback, 1, 2).\<close>

theorem failed_batch_defaults_witness:
  "map (\<lambda>t. (category t, is_expense t, is_split t))
       (process_transactions_ai AgentRaised example_achu_page) =
     [(Some UNCATEGORIZED, Some 1, Some 0)]
   \<and> map (\<lambda>t. (category t, is_expense t, is_split t))
       (process_transactions_ai AgentNotInitialized example_achu_page) =
     [(Some UNCATEGORIZED, Some 1, Some 2)]"
  using failed_batch_defaults [of example_achu_page]
  by (simp add: example_eval string_eval)

text \<open>The split flag that extraction set to 2 ends as 2 when no classifier is
  initialised and as 0 when the classifier raises.\<close>

theorem not_configured_keeps_extraction_split_flag:
  "is_split (hd (process_transactions_ai AgentNotInitialized example_achu_page)) = Some 2
   \<and> is_split (hd (process_transactions_ai AgentRaised example_achu_page)) = Some 0"
  by (simp add: example_eval string_eval assign_missing_defaults_def assign_error_defaults_def)


section \<open>Verification: the categorized checkpoint\<close>

text \<open>Resolving the display value of a member gives the member back, except for
  \<open>BODY\<close> and \<open>HOUSE\<close>, which the resolver rewrites to \<open>GYM\<close> and \<open>HOUSEHOLD\<close>.\<close>

lemma from_string_member_value:
  "from_string (member_value c) = (if c = BODY then GYM else if c = HOUSE then HOUSEHOLD else c)"
  by (cases c) (simp_all add: from_string_eval)

lemma deserialize_model_dump:
  "deserialize_categorized_item (model_dump_json t) =
     Some (t\<lparr> category :=
       map_option (\<lambda>c. if c = BODY then GYM else if c = HOUSE then HOUSEHOLD else c)
         (category t) \<rparr>)"
  by (cases "transaction_type t"; cases "category t"; cases "amount t")
     (simp_all add: deserialize_categorized_item_def model_dump_json_def
        construct_Transaction_def from_string_member_value)

text \<open>
  C2, as amended. Loading a categorized checkpoint that was just saved gives back the
  saved transactions, in order and with no record dropped, every field as it was, except
  that a category \<open>BODY\<close> comes back as \<open>GYM\<close> and a category \<open>HOUSE\<close> as
  \<open>HOUSEHOLD\<close>; every other member of the vocabulary survives the round trip.
\<close>

theorem categorized_checkpoint_round_trip:
  "load_categorized (save_checkpoint txs) =
     map (\<lambda>t. t\<lparr> category :=
            map_option (\<lambda>c. if c = BODY then GYM else if c = HOUSE then HOUSEHOLD else c)
              (category t) \<rparr>) txs"
  by (induction txs)
     (simp_all add: load_categorized_def save_checkpoint_def deserialize_model_dump)

theorem categorized_checkpoint_round_trip_witness:
  "load_categorized (save_checkpoint [example_categorized FOOD, example_categorized INCOME_TAX]) =
     [example_categorized FOOD, example_categorized INCOME_TAX]"
  using categorized_checkpoint_round_trip
          [of "[example_categorized FOOD, example_categorized INCOME_TAX]"]
  by (simp add: example_categorized_def)

text \<open>Two transactions saved with the categories \<open>BODY\<close> and \<open>HOUSE\<close> are loaded with
  the categories \<open>GYM\<close> and \<open>HOUSEHOLD\<close>.\<close>

theorem body_and_house_not_preserved:
  "map category
     (load_categorized (save_checkpoint [example_categorized BODY, example_categorized HOUSE]))
     = [Some GYM, Some HOUSEHOLD]"
  by (simp add: load_categorized_def save_checkpoint_def deserialize_categorized_item_def
        model_dump_json_def construct_Transaction_def example_categorized_def from_string_eval)


section \<open>Verification: resume precedence\<close>

text \<open>
  C7, as amended. When the run has its configuration and credentials and finds a
  categorized checkpoint that decodes to a non-empty list, it runs neither extraction
  nor enrichment, whatever the processed checkpoint holds, and its final transactions
  are exactly the records of the categorized checkpoint that deserialize. The run
  then ends without a sheet update when no record deserialized; otherwise it asks for
  confirmation, and updates the sheets with these records if the answer is \<open>yes\<close>
  and ends without an update on any other answer.
\<close>

theorem categorized_checkpoint_takes_priority:
  assumes "config_loaded inp" and "credentials_obtained inp"
    and "categorized_transactions_file inp = FileContent items" and "items \<noteq> []"
  shows "stages_run (main inp) = []
       \<and> resume_stage (main inp) = ResumeCategorized
       \<and> final_transactions (main inp) = Some (load_categorized items)
       \<and> outcome (main inp) =
           (if load_categorized items = [] then ExitNoTransactions
            else if strip (lower (proceed_answer inp)) = ''yes''
                 then UpdateGoogleSheet (load_categorized items)
                 else AbortedByUser)"
proof -
  obtain d ds where items: "items = d # ds" using assms(4) by (cases items) auto
  show ?thesis
    using assms(1-3) unfolding items
    by (cases "load_categorized (d # ds)")
       (simp_all add: main_def run_pipeline_def resume_from_checkpoints_def)
qed

text \<open>A run that finds both checkpoints resumes from the categorized one and hands its
  two records to the sheet update.\<close>

theorem categorized_checkpoint_takes_priority_witness:
  "config_loaded example_run \<and> credentials_obtained example_run
   \<and> categorized_transactions_file example_run =
       FileContent (save_checkpoint [example_categorized FOOD, example_categorized RENT])
   \<and> save_checkpoint [example_categorized FOOD, example_categorized RENT] \<noteq> []
   \<and> stages_run (main example_run) = []
   \<and> outcome (main example_run) =
       UpdateGoogleSheet [example_categorized FOOD, example_categorized RENT]"
  using categorized_checkpoint_takes_priority
          [of example_run "save_checkpoint [example_categorized FOOD, example_categorized RENT]"]
  by (simp add: example_run_def save_checkpoint_def load_categorized_def
        deserialize_model_dump example_categorized_def string_eval)

text \<open>The same run answered \<open>no\<close>: it has its configuration, its credentials and a
  categorized checkpoint whose two records load, it skips both stages, and it ends
  without updating the sheets.\<close>

theorem declined_confirmation_writes_nothing:
  "config_loaded (example_run\<lparr> proceed_answer := ''no'' \<rparr>)
   \<and> credentials_obtained (example_run\<lparr> proceed_answer := ''no'' \<rparr>)
   \<and> final_transactions (main (example_run\<lparr> proceed_answer := ''no'' \<rparr>)) =
       Some [example_categorized FOOD, example_categorized RENT]
   \<and> stages_run (main (example_run\<lparr> proceed_answer := ''no'' \<rparr>)) = []
   \<and> outcome (main (example_run\<lparr> proceed_answer := ''no'' \<rparr>)) = AbortedByUser"
  by (simp add: main_def run_pipeline_def resume_from_checkpoints_def example_run_def
        save_checkpoint_def load_categorized_def deserialize_model_dump
        example_categorized_def string_eval)


section \<open>Verification: the date window\<close>

lemma filter_loop_fst:
  "fst (filter_loop s e ts (kept, ig, nd)) =
     kept @ filter (\<lambda>t. case date t of None \<Rightarrow> False
                       | Some str \<Rightarrow> (case parse_transaction_date str of None \<Rightarrow> False
                            | Some d \<Rightarrow> date_le s d \<and> date_le d e)) ts"
  by (induction ts arbitrary: kept ig nd) (auto split: option.splits)

text \<open>For a month of the calendar, the window runs from its first day to the second
  day of the month after it.\<close>

lemma window:
  assumes "1 \<le> y" "y \<le> 9999" "1 \<le> m" "m \<le> 12" "\<not> (y = 9999 \<and> m = 12)"
  shows "make_date y m 1 = Some (Date (nat y) (nat m) 1)"
    and "add_one_month (Date (nat y) (nat m) 1) =
           Some (Date (if m = 12 then nat y + 1 else nat y) (if m = 12 then 1 else nat m + 1) 1)"
    and "add_one_day (Date (if m = 12 then nat y + 1 else nat y) (if m = 12 then 1 else nat m + 1) 1) =
           Some (Date (if m = 12 then nat y + 1 else nat y) (if m = 12 then 1 else nat m + 1) 2)"
proof -
  obtain yn mn where y: "y = int yn" and m: "m = int mn"
    using assms(1,3) by (metis nat_0_le order_trans zero_le_one)
  have b: "1 \<le> yn" "yn \<le> 9999" "1 \<le> mn" "mn \<le> 12" "\<not> (yn = 9999 \<and> mn = 12)"
    using assms unfolding y m by auto
  have d: "1 \<le> days_in_month a c" "2 \<le> days_in_month a c" for a c
    by (simp_all add: days_in_month_def)
  show "make_date y m 1 = Some (Date (nat y) (nat m) 1)"
    using b d [of yn mn] unfolding y m by (simp add: make_date_def)
  show "add_one_month (Date (nat y) (nat m) 1) =
           Some (Date (if m = 12 then nat y + 1 else nat y) (if m = 12 then 1 else nat m + 1) 1)"
    using b d [of "Suc yn" 1] d [of yn "Suc mn"] unfolding y m
    by (auto simp: add_one_month_def make_date_def Let_def min_def)
  show "add_one_day (Date (if m = 12 then nat y + 1 else nat y) (if m = 12 then 1 else nat m + 1) 1) =
           Some (Date (if m = 12 then nat y + 1 else nat y) (if m = 12 then 1 else nat m + 1) 2)"
    using b d [of "Suc yn" 1] d [of yn "Suc mn"] unfolding y m
    by (auto simp: add_one_day_def make_date_def)
qed

text \<open>
  C10. For a target month of the calendar (year 1 to 9999, month 1 to 12, December 9999
  apart), the filter returns, in their order, exactly the transactions whose date string
  parses to a date from the first day of the target month to the second day of the
  following month, both included. A transaction with no date or a date no format
  parses is left out.
\<close>

theorem date_window_filter:
  assumes "1 \<le> y" "y \<le> 9999" "1 \<le> m" "m \<le> 12" "\<not> (y = 9999 \<and> m = 12)"
  shows "filter_transactions_by_date txs y m =
     filter (\<lambda>t. case date t of
                   None \<Rightarrow> False
                 | Some str \<Rightarrow>
                     (case parse_transaction_date str of
                        None \<Rightarrow> False
                      | Some d \<Rightarrow>
                          date_le (Date (nat y) (nat m) 1) d
                          \<and> date_le d (Date (if m = 12 then nat y + 1 else nat y)
                                           (if m = 12 then 1 else nat m + 1) 2))) txs"
  unfolding filter_transactions_by_date_def
  by (simp only: window [OF assms] option.case filter_loop_fst append_Nil)

lemma parse_first_of_march: "parse_transaction_date ''2024-03-01'' = Some (Date 2024 3 1)"
  by code_simp

lemma parse_second_of_april: "parse_transaction_date ''02/04/2024'' = Some (Date 2024 4 2)"
  by code_simp

lemma parse_third_of_april: "parse_transaction_date ''03-Apr-2024'' = Some (Date 2024 4 3)"
  by code_simp

lemma parse_end_of_february: "parse_transaction_date ''29/02/2024'' = Some (Date 2024 2 29)"
  by code_simp

lemma parse_no_date: "parse_transaction_date ''someday'' = None"
  by code_simp

text \<open>For March 2024: the transactions of 1 March and 2 April are kept, in that order;
  those of 3 April and 29 February and the one with an unparseable date are dropped.\<close>

theorem date_window_filter_witness:
  "(1::int) \<le> 2024 \<and> (2024::int) \<le> 9999 \<and> (1::int) \<le> 3 \<and> (3::int) \<le> 12
   \<and> filter_transactions_by_date
       [example_dated ''2024-03-01'', example_dated ''02/04/2024'',
        example_dated ''03-Apr-2024'', example_dated ''29/02/2024'',
        example_dated ''someday''] 2024 3 =
     [example_dated ''2024-03-01'', example_dated ''02/04/2024'']"
  using date_window_filter
          [of 2024 3 "[example_dated ''2024-03-01'', example_dated ''02/04/2024'',
                       example_dated ''03-Apr-2024'', example_dated ''29/02/2024'',
                       example_dated ''someday'']"]
  by (simp add: example_dated_def example_categorized_def parse_first_of_march
        parse_second_of_april parse_third_of_april parse_end_of_february parse_no_date
        date_le_def)


section \<open>Verification: the two date parsers\<close>

lemma try_formats_subset:
  assumes "try_formats fs s \<noteq> None" and "set fs \<subseteq> set gs"
  shows "try_formats gs s \<noteq> None"
proof -
  have a: "try_formats hs s \<noteq> None \<longleftrightarrow> (\<exists>f \<in> set hs. strptime s f \<noteq> None)" for hs
    by (induction hs) (auto split: option.splits)
  show ?thesis using assms unfolding a by blast
qed

text \<open>Every string the sheet writer's parser accepts, the filter's parser accepts.\<close>

lemma sheet_parser_accepts_imp_filter:
  "sheet_parser_accepts s \<Longrightarrow> filter_parser_accepts s"
  unfolding sheet_parser_accepts_def filter_parser_accepts_def
  by (erule try_formats_subset) (simp add: sheet_formats_to_try_def filter_formats_to_try_def)

text \<open>A string the sheet writer's parser does not accept is written as the empty
  string.\<close>

lemma unparsed_date_written_empty:
  "\<not> sheet_parser_accepts s \<Longrightarrow> parse_date_flexible (Some s) = []"
  by (simp add: sheet_parser_accepts_def parse_date_flexible_def)

text \<open>
  C5. The claim is that the parser used when dates are written to the sheets accepts
  the same strings as the parser of the date-window filter. On the date
  \<open>2024-03-05\<close> the code does otherwise: the filter's parser accepts it (format
  \<open>%Y-%m-%d\<close>), the sheet writer's parser does not, and the date is written as the
  empty string.
\<close>

theorem iso_date_accepted_by_filter_only:
  "filter_parser_accepts ''2024-03-05''
   \<and> \<not> sheet_parser_accepts ''2024-03-05''
   \<and> parse_date_flexible (Some ''2024-03-05'') = []"
  by code_simp


section \<open>Verification: fields before enrichment\<close>

lemma attach_account_fields:
  "short_description (attach_account acct t) = short_description t
   \<and> category (attach_account acct t) = category t
   \<and> is_expense (attach_account acct t) = is_expense t
   \<and> is_split (attach_account acct t) =
       (if contains ''achu'' (lower (description t)) then Some 2 else is_split t)"
  by (simp add: attach_account_def Let_def)

lemma filter_transactions_by_date_subset:
  "set (filter_transactions_by_date txs y m) \<subseteq> set txs"
  by (auto simp: filter_transactions_by_date_def filter_loop_fst split: option.splits)

lemma deserialize_processed_model_dump:
  "deserialize_processed_item (model_dump_json t) =
     Some (t\<lparr> date := map_option (\<lambda>s. parse_date_flexible (Some s)) (date t),
              category := None \<rparr>)"
  by (cases "transaction_type t"; cases "amount t"; cases "date t")
     (simp_all add: deserialize_processed_item_def model_dump_json_def
        construct_Transaction_def)

text \<open>Saving the processed checkpoint and loading it changes only the date, which
  is rewritten for the sheet, and the category, which is discarded.\<close>

lemma load_processed_save_checkpoint:
  "load_processed (save_checkpoint txs) =
     map (\<lambda>t. t\<lparr> date := map_option (\<lambda>s. parse_date_flexible (Some s)) (date t),
                 category := None \<rparr>) txs"
  by (induction txs)
     (simp_all add: load_processed_def save_checkpoint_def deserialize_processed_model_dump)

text \<open>
  C6, as amended. Take a page answer whose items carry only the four fields the prompt
  asks for. Then short description, category and expense flag are unset on every
  transaction when it is created, when the page loop of the extraction has run, after
  the date filter, and after the processed checkpoint was saved and loaded again: no
  stage before enrichment populates them. The split flag is different: extraction sets
  it to 2 on a transaction whose description contains \<open>achu\<close> in any letter case, and
  leaves it as it was created otherwise.
\<close>

theorem extraction_leaves_enrichment_fields_unset:
  assumes "list_all only_extracted_fields items"
  shows "list_all enrichment_fields_unset (map Transaction_of_page_item items)
       \<and> list_all enrichment_fields_unset (extract_page acct items)
       \<and> list_all enrichment_fields_unset
           (filter_transactions_by_date (extract_page acct items) y m)
       \<and> list_all enrichment_fields_unset
           (load_processed (save_checkpoint
              (filter_transactions_by_date (extract_page acct items) y m)))
       \<and> map is_split (extract_page acct items) =
           map (\<lambda>p. if contains ''achu'' (lower (pg_description p)) then Some 2
                     else is_split (Transaction_of_page_item p)) items"
proof -
  have created: "list_all enrichment_fields_unset (map Transaction_of_page_item items)"
    using assms
    by (simp add: list_all_iff only_extracted_fields_def enrichment_fields_unset_def
          Transaction_of_page_item_def)
  then have extracted: "list_all enrichment_fields_unset (extract_page acct items)"
    by (simp add: list_all_iff extract_page_def enrichment_fields_unset_def
          attach_account_fields)
  then have filtered: "list_all enrichment_fields_unset
      (filter_transactions_by_date (extract_page acct items) y m)"
    using filter_transactions_by_date_subset [of "extract_page acct items" y m]
    by (auto simp: list_all_iff)
  then have reloaded: "list_all enrichment_fields_unset
      (load_processed (save_checkpoint
         (filter_transactions_by_date (extract_page acct items) y m)))"
    by (simp add: load_processed_save_checkpoint list_all_iff enrichment_fields_unset_def)
  have split: "map is_split (extract_page acct items) =
      map (\<lambda>p. if contains ''achu'' (lower (pg_description p)) then Some 2
                else is_split (Transaction_of_page_item p)) items"
    by (simp add: extract_page_def attach_account_fields)
       (simp add: Transaction_of_page_item_def)
  show ?thesis using created extracted filtered reloaded split by simp
qed

text \<open>A page with the single line \<open>UPI to Achu\<close>: the three fields are unset after
  extraction, and the split flag is 2.\<close>

theorem extraction_leaves_enrichment_fields_unset_witness:
  "list_all only_extracted_fields [example_line ''01/03/2024'' ''UPI to Achu'' debit]
   \<and> map (\<lambda>t. (short_description t, category t, is_expense t)) example_achu_page =
       [(None, None, None)]
   \<and> map is_split example_achu_page = [Some 2]"
  using extraction_leaves_enrichment_fields_unset
          [of "[example_line ''01/03/2024'' ''UPI to Achu'' debit]" "''HDFC Savings''" 2024 3]
  by (simp add: example_eval string_eval only_extracted_fields_def)

text \<open>The split flag of the statement line \<open>UPI to Achu\<close> is 2 when extraction returns
  the transaction: extraction has populated it.\<close>

theorem extraction_sets_split_flag:
  "is_split (hd example_achu_page) = Some 2"
  by (simp add: example_eval string_eval)


section \<open>Verification: the split-share formulas\<close>

text \<open>The formulas of the Achu sheet give the whole cost to Appu for split flag 0, half
  to each for 1, and the whole cost to Achu for 2.\<close>

lemma achu_sheet_split_shares:
  "split_shares True (sheet_row b c 0) = (Some c, Some 0)
   \<and> split_shares True (sheet_row b c 1) = (Some (c / 2), Some (c / 2))
   \<and> split_shares True (sheet_row b c 2) = (Some 0, Some c)"
  by (simp add: split_shares_def sheet_row_def appu_formula_template_def
        achu_formula_template_def)

text \<open>
  C1. The claim is that both formula variants give the whole cost to Appu for split
  flag 0, half to each party for 1, and the whole cost to Achu for 2. On an expense row
  of cost 100 the formulas written to every sheet other than Achu give (0, 100) for
  split flag 0, (100, 0) for 1 and (50, 50) for 2.
\<close>

theorem other_sheets_split_shares:
  "split_shares False (sheet_row 1 100 0) = (Some 0, Some 100)
   \<and> split_shares False (sheet_row 1 100 1) = (Some 100, Some 0)
   \<and> split_shares False (sheet_row 1 100 2) = (Some 50, Some 50)"
  by (simp add: split_shares_def sheet_row_def appu_formula_template_def
        achu_formula_template_def round_half_away_def)


section \<open>Verification: sheet synchronisation\<close>

lemma sync_inv_length:
  "sync_inv st \<Longrightarrow> length (existing_sheet_names st) = length (workbook st)"
  unfolding sync_inv_def by (metis distinct_card)

lemma delete_step_succeeds:
  assumes "sync_inv st" and "s \<in> set (workbook st)" and "t \<in> set (workbook st)" and "t \<noteq> s"
  shows "delete_step s st =
           st\<lparr> workbook := remove1 s (workbook st),
               existing_sheet_names := removeAll s (existing_sheet_names st),
               ops := ops st @ [DeleteSheet s] \<rparr>"
proof -
  have "card (set (workbook st)) \<ge> 2"
  proof -
    have "{s, t} \<subseteq> set (workbook st)" using assms by simp
    then have "card {s, t} \<le> card (set (workbook st))" by (simp add: card_mono)
    then show ?thesis using assms(4) by simp
  qed
  then have len: "1 < length (workbook st)"
    using assms(1) unfolding sync_inv_def by (simp add: distinct_card)
  then have "length (existing_sheet_names st) \<noteq> 1"
    using sync_inv_length [OF assms(1)] by simp
  then show ?thesis using len assms(2) by (simp add: delete_step_def del_worksheet_def)
qed

lemma fold_delete_step:
  assumes "sync_inv st" and "set ds \<subseteq> set (workbook st)" and "distinct ds"
    and "t \<in> set (workbook st)" and "t \<notin> set ds"
  shows "sync_inv (fold delete_step ds st)
       \<and> set (workbook (fold delete_step ds st)) = set (workbook st) - set ds"
  using assms
proof (induction ds arbitrary: st)
  case Nil
  then show ?case by simp
next
  case (Cons d ds)
  let ?st = "st\<lparr> workbook := remove1 d (workbook st),
               existing_sheet_names := removeAll d (existing_sheet_names st),
               ops := ops st @ [DeleteSheet d] \<rparr>"
  have step: "delete_step d st = ?st"
    using Cons.prems by (intro delete_step_succeeds [where t = t]) auto
  have inv: "sync_inv ?st"
    using Cons.prems(1) unfolding sync_inv_def by (auto simp: distinct_removeAll)
  have sub: "set ds \<subseteq> set (workbook ?st)"
    using Cons.prems unfolding sync_inv_def by auto
  have t: "t \<in> set (workbook ?st)" "t \<notin> set ds"
    using Cons.prems unfolding sync_inv_def by auto
  have "distinct ds" using Cons.prems by simp
  from Cons.IH [OF inv sub this t] show ?case
    using Cons.prems(1) unfolding sync_inv_def by (auto simp: step)
qed


lemma delete_phase_with_target:
  assumes "distinct wb" and "t \<in> set wb" and "t \<in> set T"
  shows "sync_inv (delete_phase h T (initial_state wb))
       \<and> set (workbook (delete_phase h T (initial_state wb))) = set wb \<inter> set T"
proof -
  let ?ds = "sort_key h (filter (\<lambda>n. n \<notin> set T) wb)"
  have inv: "sync_inv (initial_state wb)"
    using assms(1) by (simp add: sync_inv_def initial_state_def)
  have ds: "set ?ds \<subseteq> set (workbook (initial_state wb))" "distinct ?ds"
    "t \<in> set (workbook (initial_state wb))" "t \<notin> set ?ds"
    using assms by (auto simp: initial_state_def)
  have f: "sync_inv (fold delete_step ?ds (initial_state wb))
       \<and> set (workbook (fold delete_step ?ds (initial_state wb))) = set wb \<inter> set T"
    using fold_delete_step [OF inv ds] by (auto simp: initial_state_def)
  show ?thesis
  proof (cases "?ds = []")
    case True
    then have "filter (\<lambda>n. n \<notin> set T) wb = []"
      by (metis length_0_conv length_sort)
    then have "set wb \<inter> set T = set wb" by (auto simp: filter_empty_conv)
    then show ?thesis
      using True inv by (simp add: delete_phase_def initial_state_def)
  next
    case False
    then obtain d where d: "d \<in> set wb" "d \<notin> set T"
      by (metis (mono_tags, lifting) filter_False sort_key_simps(1))
    have "{d, t} \<subseteq> set wb" using d assms by simp
    then have "card {d, t} \<le> card (set wb)" by (simp add: card_mono)
    moreover have "d \<noteq> t" using d(2) assms(3) by blast
    then have "card {d, t} = 2" by simp
    ultimately have "1 < length wb" using assms(1) by (simp add: distinct_card)
    then show ?thesis
      using f False by (simp add: delete_phase_def initial_state_def Let_def)
  qed
qed

lemma delete_phase_lone_sheet:
  assumes "x \<notin> set T"
  shows "delete_phase h T (initial_state [x]) = initial_state [x]"
  using assms by (simp add: delete_phase_def initial_state_def)

lemma add_step_plain:
  assumes "sync_inv st" and "''Sheet1'' \<notin> set (existing_sheet_names st)" and "s \<noteq> ''Sheet1''"
  shows "sync_inv (add_step s st)
       \<and> ''Sheet1'' \<notin> set (existing_sheet_names (add_step s st))
       \<and> set (workbook (add_step s st)) = insert s (set (workbook st))"
  using assms
  by (auto simp: add_step_def add_worksheet_def sync_inv_def)

lemma fold_add_step_plain:
  assumes "sync_inv st" and "''Sheet1'' \<notin> set (existing_sheet_names st)"
    and "''Sheet1'' \<notin> set as"
  shows "sync_inv (fold add_step as st)
       \<and> set (workbook (fold add_step as st)) = set (workbook st) \<union> set as"
  using assms
proof (induction as arbitrary: st)
  case Nil
  then show ?case by simp
next
  case (Cons a as)
  have a: "a \<noteq> ''Sheet1''" and as: "''Sheet1'' \<notin> set as" using Cons.prems(3) by auto
  note s = add_step_plain [OF Cons.prems(1,2) a]
  from Cons.IH [of "add_step a st"] s as show ?case by auto
qed

lemma add_phase_list:
  "add_phase T st = fold add_step (filter (\<lambda>n. n \<notin> set (existing_sheet_names st)) T) st"
proof -
  have "filter (\<lambda>n. n \<in> set (filter (\<lambda>n. n \<notin> set (existing_sheet_names st)) T)) T
        = filter (\<lambda>n. n \<notin> set (existing_sheet_names st)) T"
    by (rule filter_cong) auto
  then show ?thesis by (simp add: add_phase_def)
qed

lemma add_phase_plain:
  assumes "sync_inv st" and "''Sheet1'' \<notin> set T" and "set (workbook st) \<subseteq> set T"
  shows "sync_inv (add_phase T st) \<and> set (workbook (add_phase T st)) = set T"
proof -
  let ?as = "filter (\<lambda>n. n \<notin> set (existing_sheet_names st)) T"
  have n: "''Sheet1'' \<notin> set (existing_sheet_names st)"
    using assms unfolding sync_inv_def by auto
  have "''Sheet1'' \<notin> set ?as" using assms(2) by simp
  from fold_add_step_plain [OF assms(1) n this]
  show ?thesis using assms(1,3) unfolding add_phase_list sync_inv_def by auto
qed

lemma add_phase_fresh_workbook:
  assumes "''Sheet1'' \<notin> set T" and "T \<noteq> []"
  shows "sync_inv (add_phase T (initial_state [''Sheet1'']))
       \<and> set (workbook (add_phase T (initial_state [''Sheet1'']))) = set T"
proof -
  obtain a as where T: "T = a # as" using assms(2) by (cases T) auto
  have a: "a \<noteq> ''Sheet1''" and as: "''Sheet1'' \<notin> set as" using assms(1) T by auto
  let ?st = "\<lparr> workbook = [a], existing_sheet_names = [a],
                ops = [RenameSheet ''Sheet1'' a] \<rparr>"
  have step: "add_step a (initial_state [''Sheet1'']) = ?st"
    using a by (simp add: add_step_def update_title_def initial_state_def)
  have inv: "sync_inv ?st" by (simp add: sync_inv_def)
  have n: "''Sheet1'' \<notin> set (existing_sheet_names ?st)" using a by simp
  have "filter (\<lambda>n. n \<notin> set (existing_sheet_names (initial_state [''Sheet1'']))) T = T"
    using assms(1) by (auto simp: initial_state_def filter_id_conv)
  then have "add_phase T (initial_state [''Sheet1'']) = fold add_step as ?st"
    unfolding add_phase_list by (simp add: T step)
  then show ?thesis
    using fold_add_step_plain [OF inv n as] by (auto simp: T)
qed

lemma reorder_phase_workbook:
  "set (workbook (reorder_phase T st)) = set (workbook st)
   \<and> distinct (workbook (reorder_phase T st)) = distinct (workbook st)
   \<and> ops (reorder_phase T st) = ops st"
  by (simp add: reorder_phase_def)

lemma sync_sheets_initial:
  "sync_sheets h T wb = reorder_phase T (add_phase T (delete_phase h T (initial_state wb)))"
  by (simp add: sync_sheets_def initial_state_def)

lemma sync_sheets_converges:
  assumes "distinct wb" and "''Sheet1'' \<notin> set T"
    and "(\<exists>t \<in> set wb. t \<in> set T) \<or> (wb = [''Sheet1''] \<and> T \<noteq> [])"
  shows "set (workbook (sync_sheets h T wb)) = set T \<and> distinct (workbook (sync_sheets h T wb))"
  using assms(3)
proof
  assume "\<exists>t \<in> set wb. t \<in> set T"
  then obtain t where t: "t \<in> set wb" "t \<in> set T" by auto
  note d = delete_phase_with_target [OF assms(1) t, of h]
  then have "set (workbook (delete_phase h T (initial_state wb))) \<subseteq> set T" by auto
  from add_phase_plain [OF _ assms(2) this] d
  show ?thesis
    unfolding sync_sheets_initial by (auto simp: reorder_phase_workbook sync_inv_def)
next
  assume b: "wb = [''Sheet1''] \<and> T \<noteq> []"
  then have "delete_phase h T (initial_state wb) = initial_state [''Sheet1'']"
    using delete_phase_lone_sheet [OF assms(2)] by simp
  then show ?thesis
    using add_phase_fresh_workbook [OF assms(2)] b
    unfolding sync_sheets_initial by (auto simp: reorder_phase_workbook sync_inv_def)
qed

lemma sync_sheets_fixed_point:
  assumes "set wb = set T"
  shows "ops (sync_sheets h T wb) = []"
proof -
  have d: "filter (\<lambda>n. n \<notin> set T) wb = []" using assms by (auto simp: filter_empty_conv)
  have a: "filter (\<lambda>n. n \<notin> set wb) T = []" using assms by (auto simp: filter_empty_conv)
  show ?thesis
    unfolding sync_sheets_initial
    by (simp add: reorder_phase_workbook add_phase_list delete_phase_def initial_state_def d a)
qed

lemma distinct_singleton_set:
  assumes "distinct ys" and "set ys = {x}"
  shows "ys = [x]"
proof -
  have "length ys = card (set ys)" using assms(1) by (simp add: distinct_card)
  then have "length ys = 1" using assms(2) by simp
  then obtain y where "ys = [y]" by (cases ys) auto
  then show ?thesis using assms(2) by simp
qed

text \<open>From a workbook whose only sheet is neither a target nor \<open>Sheet1\<close>, the first
  run adds the targets and leaves that sheet.\<close>

lemma sync_sheets_lone_sheet_first_run:
  assumes "x \<notin> set T" and "x \<noteq> ''Sheet1''" and "''Sheet1'' \<notin> set T"
  shows "set (workbook (sync_sheets h T [x])) = insert x (set T)
       \<and> distinct (workbook (sync_sheets h T [x]))"
proof -
  have inv: "sync_inv (initial_state [x])" by (simp add: sync_inv_def initial_state_def)
  have n: "''Sheet1'' \<notin> set (existing_sheet_names (initial_state [x]))"
    using assms(2) by (simp add: initial_state_def)
  have as: "filter (\<lambda>n. n \<notin> set (existing_sheet_names (initial_state [x]))) T = T"
    using assms(1) by (auto simp: initial_state_def filter_id_conv)
  have "sync_inv (fold add_step T (initial_state [x]))
       \<and> set (workbook (fold add_step T (initial_state [x]))) =
           set (workbook (initial_state [x])) \<union> set T"
    by (rule fold_add_step_plain [OF inv n assms(3)])
  then show ?thesis
    unfolding sync_sheets_initial delete_phase_lone_sheet [OF assms(1)] add_phase_list as
    by (auto simp: reorder_phase_workbook sync_inv_def initial_state_def)
qed

text \<open>On a workbook that holds the targets and one more sheet, a run deletes that
  sheet and makes no other call.\<close>

lemma sync_sheets_deletes_leftover:
  assumes "distinct wb" and "set wb = insert x (set T)" and "x \<notin> set T" and "T \<noteq> []"
  shows "ops (sync_sheets h T wb) = [DeleteSheet x]"
proof -
  obtain t where t: "t \<in> set T" using assms(4) by (cases T) auto
  then have tx: "t \<in> set wb" "t \<noteq> x" using assms(2,3) by auto
  have "distinct (filter (\<lambda>n. n \<notin> set T) wb)" using assms(1) by simp
  moreover have "set (filter (\<lambda>n. n \<notin> set T) wb) = {x}" using assms(2,3) by auto
  ultimately have d: "filter (\<lambda>n. n \<notin> set T) wb = [x]" by (rule distinct_singleton_set)
  have "{x, t} \<subseteq> set wb" using tx assms(2) by simp
  then have "card {x, t} \<le> card (set wb)" by (simp add: card_mono)
  moreover have "card {x, t} = 2" using tx(2) by simp
  ultimately have len: "1 < length wb" using assms(1) by (simp add: distinct_card)
  have inv: "sync_inv (initial_state wb)"
    using assms(1) by (simp add: sync_inv_def initial_state_def)
  have xin: "x \<in> set (workbook (initial_state wb))" "t \<in> set (workbook (initial_state wb))"
    using assms(2) tx by (simp_all add: initial_state_def)
  have del: "delete_phase h T (initial_state wb) =
      \<lparr> workbook = remove1 x wb, existing_sheet_names = removeAll x wb, ops = [DeleteSheet x] \<rparr>"
    using len delete_step_succeeds [OF inv xin tx(2)]
    by (simp add: delete_phase_def d initial_state_def)
  have "set (removeAll x wb) = set T" using assms(2,3) by auto
  then have a: "filter (\<lambda>n. n \<notin> set (removeAll x wb)) T = []" by (simp add: filter_empty_conv)
  have "add_phase T \<lparr> workbook = remove1 x wb, existing_sheet_names = removeAll x wb,
            ops = [DeleteSheet x] \<rparr>
        = \<lparr> workbook = remove1 x wb, existing_sheet_names = removeAll x wb,
            ops = [DeleteSheet x] \<rparr>"
    unfolding add_phase_list by (simp only: sync_state.simps a fold_simps id_apply)
  then show ?thesis
    unfolding sync_sheets_initial del by (simp add: reorder_phase_workbook)
qed

text \<open>
  C8, as amended. Let the workbook hold no title twice and no target sheet be named
  \<open>Sheet1\<close>. If the workbook holds at least one target sheet before the first run, or
  is the fresh workbook whose only sheet is \<open>Sheet1\<close> (with a non-empty target list),
  then the first run leaves exactly the target sheets, and a second run on the result
  makes no create, delete or rename call, whatever the order in which the sheets to
  delete are visited. If instead the only sheet of the workbook is neither a target
  nor \<open>Sheet1\<close> (and the target list is not empty), the first run leaves that
  sheet next to the target sheets, and the second run makes exactly one call, the
  deletion of that sheet.
\<close>

theorem sync_second_run_no_operations:
  assumes "distinct wb" and "''Sheet1'' \<notin> set T"
  shows "((\<exists>t \<in> set wb. t \<in> set T) \<or> (wb = [''Sheet1''] \<and> T \<noteq> []) \<longrightarrow>
            set (workbook (sync_sheets h T wb)) = set T
            \<and> ops (sync_sheets h T (workbook (sync_sheets h T wb))) = [])
       \<and> (wb = [x] \<and> x \<notin> set T \<and> x \<noteq> ''Sheet1'' \<and> T \<noteq> [] \<longrightarrow>
            set (workbook (sync_sheets h T wb)) = insert x (set T)
            \<and> ops (sync_sheets h T (workbook (sync_sheets h T wb))) = [DeleteSheet x])"
proof (intro conjI impI)
  assume c: "(\<exists>t \<in> set wb. t \<in> set T) \<or> (wb = [''Sheet1''] \<and> T \<noteq> [])"
  from sync_sheets_converges [OF assms c]
  show "set (workbook (sync_sheets h T wb)) = set T"
    and "ops (sync_sheets h T (workbook (sync_sheets h T wb))) = []"
    using sync_sheets_fixed_point by blast+
next
  assume c: "wb = [x] \<and> x \<notin> set T \<and> x \<noteq> ''Sheet1'' \<and> T \<noteq> []"
  then have f: "set (workbook (sync_sheets h T wb)) = insert x (set T)
       \<and> distinct (workbook (sync_sheets h T wb))"
    using sync_sheets_lone_sheet_first_run [of x T h] assms(2) by simp
  then show "set (workbook (sync_sheets h T wb)) = insert x (set T)" by simp
  show "ops (sync_sheets h T (workbook (sync_sheets h T wb))) = [DeleteSheet x]"
    using f c by (intro sync_sheets_deletes_leftover) auto
qed

lemmas sync_eval =
  sync_sheets_def delete_phase_def add_phase_def reorder_phase_def delete_step_def
  add_step_def del_worksheet_def add_worksheet_def update_title_def target_order_def
  base_sheets_def

text \<open>From the fresh workbook the first run renames \<open>Sheet1\<close> and adds three sheets;
  from a workbook holding \<open>Cash\<close> and two other sheets it deletes the two and adds
  three. In both cases the second run makes no call. From the workbook whose only
  sheet is \<open>Old\<close> the second run makes one call, the deletion of \<open>Old\<close>.\<close>

theorem sync_second_run_no_operations_witness:
  "distinct [''Sheet1''] \<and> distinct [''Old'', ''Cash'', ''Draft''] \<and> distinct [''Old'']
   \<and> ''Sheet1'' \<notin> set base_sheets \<and> base_sheets \<noteq> []
   \<and> ''Cash'' \<in> set [''Old'', ''Cash'', ''Draft''] \<and> ''Cash'' \<in> set base_sheets
   \<and> ''Old'' \<notin> set base_sheets \<and> ''Old'' \<noteq> ''Sheet1''
   \<and> ops (sync_sheets (\<lambda>n. 0) base_sheets [''Sheet1'']) =
       [RenameSheet ''Sheet1'' ''Cash'', AddSheet ''Achu'', AddSheet ''Final Recon'',
        AddSheet ''Reporting'']
   \<and> ops (sync_sheets (\<lambda>n. 0) base_sheets
            (workbook (sync_sheets (\<lambda>n. 0) base_sheets [''Sheet1'']))) = []
   \<and> ops (sync_sheets (\<lambda>n. 0) base_sheets [''Old'', ''Cash'', ''Draft'']) =
       [DeleteSheet ''Old'', DeleteSheet ''Draft'', AddSheet ''Achu'',
        AddSheet ''Final Recon'', AddSheet ''Reporting'']
   \<and> ops (sync_sheets (\<lambda>n. 0) base_sheets
            (workbook (sync_sheets (\<lambda>n. 0) base_sheets [''Old'', ''Cash'', ''Draft'']))) = []
   \<and> ops (sync_sheets (\<lambda>n. 0) base_sheets
            (workbook (sync_sheets (\<lambda>n. 0) base_sheets [''Old'']))) = [DeleteSheet ''Old'']"
  using sync_second_run_no_operations
          [where wb = "[''Sheet1'']" and T = base_sheets and h = "\<lambda>n. 0" and x = "''Old''"]
        sync_second_run_no_operations
          [where wb = "[''Old'', ''Cash'', ''Draft'']" and T = base_sheets and h = "\<lambda>n. 0"
             and x = "''Old''"]
        sync_second_run_no_operations
          [where wb = "[''Old'']" and T = base_sheets and h = "\<lambda>n. 0" and x = "''Old''"]
  by (simp add: sync_eval)

text \<open>From a workbook whose only sheet is \<open>Old\<close> the first run, which makes four
  successful create calls and no other, leaves \<open>Old\<close> in place; the second run, on the
  same target list, deletes it.\<close>

theorem lone_sheet_deleted_on_second_run:
  "ops (sync_sheets (\<lambda>n. 0) base_sheets [''Old'']) =
       [AddSheet ''Cash'', AddSheet ''Achu'', AddSheet ''Final Recon'', AddSheet ''Reporting'']
   \<and> creates_and_deletes (ops (sync_sheets (\<lambda>n. 0) base_sheets
            (workbook (sync_sheets (\<lambda>n. 0) base_sheets [''Old''])))) = [DeleteSheet ''Old'']"
  by (simp add: sync_eval creates_and_deletes_def)

end
